theory Spec2Isabelle
  imports Main "HOL-Library.Word"
begin

section \<open>JavaScript strings\<close>

text \<open>
  A JavaScript string is a sequence of UTF-16 code units, and \<open>length\<close>, \<open>trim\<close>,
  \<open>startsWith\<close> and \<open>substring\<close> all count code units. The model takes a string to
  be a list of 16-bit words. String literals of the source are written \<open>lit ''...''\<close>;
  the few characters that cannot stand in an Isabelle literal are given by their code.
\<close>

type_synonym jschar = "16 word"
type_synonym jsstring = "jschar list"
type_synonym byte = "8 word"

definition lit :: "string \<Rightarrow> jsstring" where
  "lit s = map of_char s"

text \<open>
  White space and line terminators of ECMAScript, the characters \<open>String.prototype.trim\<close>
  removes from both ends: TAB, LF, VT, FF, CR, SP, NBSP, U+1680, U+2000 to U+200A,
  U+2028, U+2029, U+202F, U+205F, U+3000 and U+FEFF.
\<close>

definition js_whitespace :: "jschar \<Rightarrow> bool" where
  "js_whitespace c \<longleftrightarrow>
     c = 0x09 \<or> c = 0x0A \<or> c = 0x0B \<or> c = 0x0C \<or> c = 0x0D \<or> c = 0x20 \<or> c = 0xA0 \<or>
     c = 0x1680 \<or> (0x2000 \<le> c \<and> c \<le> 0x200A) \<or> c = 0x2028 \<or> c = 0x2029 \<or>
     c = 0x202F \<or> c = 0x205F \<or> c = 0x3000 \<or> c = 0xFEFF"

definition js_trim :: "jsstring \<Rightarrow> jsstring" where
  "js_trim s = rev (dropWhile js_whitespace (rev (dropWhile js_whitespace s)))"

definition startsWith :: "jsstring \<Rightarrow> jsstring \<Rightarrow> bool" where
  "startsWith s p \<longleftrightarrow> take (length p) s = p"

text \<open>\<open>s.substring(a)\<close>: the code units from index \<open>a\<close> on (empty when \<open>a\<close> is past the end).\<close>

definition substring :: "jsstring \<Rightarrow> nat \<Rightarrow> jsstring" where
  "substring s a = drop a s"

text \<open>\<open>s.substring(a, b)\<close>; the two indices are clamped to the length and swapped when \<open>a > b\<close>.\<close>

definition substring2 :: "jsstring \<Rightarrow> nat \<Rightarrow> nat \<Rightarrow> jsstring" where
  "substring2 s a b =
     (let a' = min a (length s); b' = min b (length s)
      in take (max a' b' - min a' b') (drop (min a' b') s))"

text \<open>
  Decimal rendering of a non-negative integer: what a template literal or \<open>String(...)\<close>
  yields for an array length or for a \<open>uint256\<close> read from the chain (a BigInt).
\<close>

definition digit_char :: "nat \<Rightarrow> jschar" where
  "digit_char d = of_nat (48 + d)"

fun show_nat :: "nat \<Rightarrow> jsstring" where
  "show_nat n = (if n < 10 then [digit_char n] else show_nat (n div 10) @ [digit_char (n mod 10)])"

declare show_nat.simps [simp del]


section \<open>JSON values and \<open>JSON.stringify\<close>\<close>

text \<open>
  The values that travel through this service are JSON values: the metadata object, the
  bodies of responses, the metadata decoded from a token URI. A number is kept as the
  literal text that denotes it; the one thing the service asks of a number is whether it
  is zero (\<open>zero_number\<close> below). An object is the list of its own properties in property
  order.
\<close>

datatype json =
    JNull
  | JBool bool
  | JNumber jsstring
  | JString jsstring
  | JArray "json list"
  | JObject "(jsstring \<times> json) list"

definition hex_char :: "nat \<Rightarrow> jschar" where
  "hex_char d = (if d < 10 then of_nat (48 + d) else of_nat (87 + d))"

text \<open>\<open>\uXXXX\<close> with four lower-case hexadecimal digits.\<close>

definition unicode_escape :: "jschar \<Rightarrow> jsstring" where
  "unicode_escape c =
     [0x5C, 0x75, hex_char (unat c div 4096), hex_char (unat c div 256 mod 16),
      hex_char (unat c div 16 mod 16), hex_char (unat c mod 16)]"

definition is_high_surrogate :: "jschar \<Rightarrow> bool" where
  "is_high_surrogate c \<longleftrightarrow> 0xD800 \<le> c \<and> c \<le> 0xDBFF"

definition is_low_surrogate :: "jschar \<Rightarrow> bool" where
  "is_low_surrogate c \<longleftrightarrow> 0xDC00 \<le> c \<and> c \<le> 0xDFFF"

text \<open>
  ECMAScript's QuoteJSONString goes through the code points of the string. A code unit
  that is not half of a surrogate pair becomes: a short escape for backspace, tab, line
  feed, form feed, carriage return, the double quote and the backslash; \<open>\uXXXX\<close> for
  any other control character and for a surrogate; itself otherwise.
\<close>

definition quote_code_unit :: "jschar \<Rightarrow> jsstring" where
  "quote_code_unit c =
     (if c = 0x08 then [0x5C, 0x62]
      else if c = 0x09 then [0x5C, 0x74]
      else if c = 0x0A then [0x5C, 0x6E]
      else if c = 0x0C then [0x5C, 0x66]
      else if c = 0x0D then [0x5C, 0x72]
      else if c = 0x22 then [0x5C, 0x22]
      else if c = 0x5C then [0x5C, 0x5C]
      else if c < 0x20 \<or> is_high_surrogate c \<or> is_low_surrogate c then unicode_escape c
      else [c])"

text \<open>A high surrogate followed by a low one is a code point of its own and is kept.\<close>

fun quote_body :: "jsstring \<Rightarrow> jsstring" where
  "quote_body [] = []"
| "quote_body (c # cs) =
     (if is_high_surrogate c then
        (case cs of
           [] \<Rightarrow> quote_code_unit c
         | d # ds \<Rightarrow>
             if is_low_surrogate d then c # d # quote_body ds
             else quote_code_unit c @ quote_body cs)
      else quote_code_unit c @ quote_body cs)"

definition quote_json_string :: "jsstring \<Rightarrow> jsstring" where
  "quote_json_string s = [0x22] @ quote_body s @ [0x22]"

fun join_comma :: "jsstring list \<Rightarrow> jsstring" where
  "join_comma [] = []"
| "join_comma [x] = x"
| "join_comma (x # y # ys) = x @ [0x2C] @ join_comma (y # ys)"

text \<open>\<open>JSON.stringify(v)\<close> with no replacer and no indentation.\<close>

fun JSON_stringify :: "json \<Rightarrow> jsstring" where
  "JSON_stringify JNull = lit ''null''"
| "JSON_stringify (JBool b) = (if b then lit ''true'' else lit ''false'')"
| "JSON_stringify (JNumber n) = n"
| "JSON_stringify (JString s) = quote_json_string s"
| "JSON_stringify (JArray vs) = [0x5B] @ join_comma (map JSON_stringify vs) @ [0x5D]"
| "JSON_stringify (JObject kvs) =
     [0x7B] @ join_comma (map (\<lambda>(k, v). quote_json_string k @ [0x3A] @ JSON_stringify v) kvs)
       @ [0x7D]"

section \<open>Buffers: UTF-8 and base64\<close>

text \<open>
  \<open>Buffer.from(s)\<close> encodes a string in UTF-8: a surrogate pair becomes the four bytes
  of its code point, a surrogate that stands alone becomes U+FFFD (EF BF BD).
\<close>

definition utf8_1 :: "nat \<Rightarrow> byte list" where
  "utf8_1 u = [of_nat u]"

definition utf8_2 :: "nat \<Rightarrow> byte list" where
  "utf8_2 u = [of_nat (0xC0 + u div 64), of_nat (0x80 + u mod 64)]"

definition utf8_3 :: "nat \<Rightarrow> byte list" where
  "utf8_3 u = [of_nat (0xE0 + u div 4096), of_nat (0x80 + u div 64 mod 64), of_nat (0x80 + u mod 64)]"

definition utf8_4 :: "nat \<Rightarrow> byte list" where
  "utf8_4 u =
     [of_nat (0xF0 + u div 262144), of_nat (0x80 + u div 4096 mod 64),
      of_nat (0x80 + u div 64 mod 64), of_nat (0x80 + u mod 64)]"

definition pair_code_point :: "jschar \<Rightarrow> jschar \<Rightarrow> nat" where
  "pair_code_point h l = 0x10000 + (unat h - 0xD800) * 0x400 + (unat l - 0xDC00)"

fun utf8_encode :: "jsstring \<Rightarrow> byte list" where
  "utf8_encode [] = []"
| "utf8_encode (c # cs) =
     (if unat c < 0x80 then utf8_1 (unat c) @ utf8_encode cs
      else if unat c < 0x800 then utf8_2 (unat c) @ utf8_encode cs
      else if is_high_surrogate c then
        (case cs of
           [] \<Rightarrow> utf8_3 0xFFFD
         | d # ds \<Rightarrow>
             if is_low_surrogate d then utf8_4 (pair_code_point c d) @ utf8_encode ds
             else utf8_3 0xFFFD @ utf8_encode cs)
      else if is_low_surrogate c then utf8_3 0xFFFD @ utf8_encode cs
      else utf8_3 (unat c) @ utf8_encode cs)"

text \<open>The base64 alphabet, and \<open>buf.toString("base64")\<close> with its padding.\<close>

definition b64_char :: "nat \<Rightarrow> jschar" where
  "b64_char n =
     (if n < 26 then of_nat (65 + n)
      else if n < 52 then of_nat (71 + n)
      else if n < 62 then of_nat (n - 4)
      else if n = 62 then 0x2B
      else 0x2F)"

fun base64_encode :: "byte list \<Rightarrow> jsstring" where
  "base64_encode [] = []"
| "base64_encode [a] =
     [b64_char (unat a div 4), b64_char (unat a mod 4 * 16), 0x3D, 0x3D]"
| "base64_encode [a, b] =
     [b64_char (unat a div 4), b64_char (unat a mod 4 * 16 + unat b div 16),
      b64_char (unat b mod 16 * 4), 0x3D]"
| "base64_encode (a # b # c # rest) =
     [b64_char (unat a div 4), b64_char (unat a mod 4 * 16 + unat b div 16),
      b64_char (unat b mod 16 * 4 + unat c div 64), b64_char (unat c mod 64)]
     @ base64_encode rest"


text \<open>
  \<open>Buffer.from(s, "base64")\<close> is lenient and never throws. The decoder looks at the low
  byte of each code unit only: it accepts the standard and the URL-safe alphabet, skips
  every other character, and stops at the first \<open>=\<close>. Four sextets give three bytes;
  two or three left over give one or two bytes; a single one left over gives none.
\<close>

definition low_byte :: "jschar \<Rightarrow> byte" where
  "low_byte c = ucast c"

definition b64_value :: "jschar \<Rightarrow> nat option" where
  "b64_value c =
     (if 0x41 \<le> low_byte c \<and> low_byte c \<le> 0x5A then Some (unat (low_byte c) - 65)
      else if 0x61 \<le> low_byte c \<and> low_byte c \<le> 0x7A then Some (unat (low_byte c) - 71)
      else if 0x30 \<le> low_byte c \<and> low_byte c \<le> 0x39 then Some (unat (low_byte c) + 4)
      else if low_byte c = 0x2B \<or> low_byte c = 0x2D then Some 62
      else if low_byte c = 0x2F \<or> low_byte c = 0x5F then Some 63
      else None)"

definition b64_sextets :: "jsstring \<Rightarrow> nat list" where
  "b64_sextets s = List.map_filter b64_value (takeWhile (\<lambda>c. low_byte c \<noteq> 0x3D) s)"

fun b64_bytes :: "nat list \<Rightarrow> byte list" where
  "b64_bytes (a # b # c # d # rest) =
     [of_nat (a * 4 + b div 16), of_nat (b mod 16 * 16 + c div 4), of_nat (c mod 4 * 64 + d)]
     @ b64_bytes rest"
| "b64_bytes [a, b, c] = [of_nat (a * 4 + b div 16), of_nat (b mod 16 * 16 + c div 4)]"
| "b64_bytes [a, b] = [of_nat (a * 4 + b div 16)]"
| "b64_bytes _ = []"

definition base64_decode :: "jsstring \<Rightarrow> byte list" where
  "base64_decode s = b64_bytes (b64_sextets s)"

text \<open>
  \<open>buf.toString()\<close> decodes UTF-8 and never throws either: every maximal ill-formed part
  (an unexpected byte, a sequence cut short, an overlong form, an encoded surrogate, a
  code point above U+10FFFF) becomes one U+FFFD, and decoding resumes at the byte that
  did not fit. A code point above U+FFFF becomes a surrogate pair.
\<close>

definition is_cont :: "byte \<Rightarrow> bool" where
  "is_cont b \<longleftrightarrow> 0x80 \<le> b \<and> b \<le> 0xBF"

text \<open>The range allowed for the byte that follows the lead byte of a sequence.\<close>

definition second_ok :: "byte \<Rightarrow> byte \<Rightarrow> bool" where
  "second_ok b0 b1 \<longleftrightarrow>
     (if b0 = 0xE0 then 0xA0 \<le> b1 \<and> b1 \<le> 0xBF
      else if b0 = 0xED then 0x80 \<le> b1 \<and> b1 \<le> 0x9F
      else if b0 = 0xF0 then 0x90 \<le> b1 \<and> b1 \<le> 0xBF
      else if b0 = 0xF4 then 0x80 \<le> b1 \<and> b1 \<le> 0x8F
      else is_cont b1)"

definition code_units :: "nat \<Rightarrow> jsstring" where
  "code_units cp =
     (if cp < 0x10000 then [of_nat cp]
      else [of_nat (0xD800 + (cp - 0x10000) div 0x400), of_nat (0xDC00 + (cp - 0x10000) mod 0x400)])"

definition cp2 :: "byte \<Rightarrow> byte \<Rightarrow> nat" where
  "cp2 b0 b1 = (unat b0 - 0xC0) * 64 + (unat b1 - 0x80)"

definition cp3 :: "byte \<Rightarrow> byte \<Rightarrow> byte \<Rightarrow> nat" where
  "cp3 b0 b1 b2 = (unat b0 - 0xE0) * 4096 + (unat b1 - 0x80) * 64 + (unat b2 - 0x80)"

definition cp4 :: "byte \<Rightarrow> byte \<Rightarrow> byte \<Rightarrow> byte \<Rightarrow> nat" where
  "cp4 b0 b1 b2 b3 =
     (unat b0 - 0xF0) * 262144 + (unat b1 - 0x80) * 4096 + (unat b2 - 0x80) * 64 + (unat b3 - 0x80)"

fun utf8_decode :: "byte list \<Rightarrow> jsstring" where
  "utf8_decode [] = []"
| "utf8_decode (b0 # bs) =
     (if b0 < 0x80 then code_units (unat b0) @ utf8_decode bs
      else if 0xC2 \<le> b0 \<and> b0 \<le> 0xDF then
        (case bs of
           [] \<Rightarrow> [0xFFFD]
         | b1 # r1 \<Rightarrow>
             if is_cont b1 then code_units (cp2 b0 b1) @ utf8_decode r1
             else 0xFFFD # utf8_decode bs)
      else if 0xE0 \<le> b0 \<and> b0 \<le> 0xEF then
        (case bs of
           [] \<Rightarrow> [0xFFFD]
         | b1 # r1 \<Rightarrow>
             if second_ok b0 b1 then
               (case r1 of
                  [] \<Rightarrow> [0xFFFD]
                | b2 # r2 \<Rightarrow>
                    if is_cont b2 then code_units (cp3 b0 b1 b2) @ utf8_decode r2
                    else 0xFFFD # utf8_decode r1)
             else 0xFFFD # utf8_decode bs)
      else if 0xF0 \<le> b0 \<and> b0 \<le> 0xF4 then
        (case bs of
           [] \<Rightarrow> [0xFFFD]
         | b1 # r1 \<Rightarrow>
             if second_ok b0 b1 then
               (case r1 of
                  [] \<Rightarrow> [0xFFFD]
                | b2 # r2 \<Rightarrow>
                    if is_cont b2 then
                      (case r2 of
                         [] \<Rightarrow> [0xFFFD]
                       | b3 # r3 \<Rightarrow>
                           if is_cont b3 then code_units (cp4 b0 b1 b2 b3) @ utf8_decode r3
                           else 0xFFFD # utf8_decode r2)
                    else 0xFFFD # utf8_decode r1)
             else 0xFFFD # utf8_decode bs)
      else 0xFFFD # utf8_decode bs)"


section \<open>\<open>JSON.parse\<close>\<close>

text \<open>
  The text is first cut into tokens, then a stack automaton builds the value. Both steps
  reject what the JSON grammar rejects; \<open>JSON.parse\<close> throws a SyntaxError there.
\<close>

datatype token =
    TLBrace | TRBrace | TLBracket | TRBracket | TComma | TColon
  | TValue json

definition hex_value :: "jschar \<Rightarrow> nat option" where
  "hex_value c =
     (if 0x30 \<le> c \<and> c \<le> 0x39 then Some (unat c - 48)
      else if 0x41 \<le> c \<and> c \<le> 0x46 then Some (unat c - 55)
      else if 0x61 \<le> c \<and> c \<le> 0x66 then Some (unat c - 87)
      else None)"

definition hex4 :: "jschar \<Rightarrow> jschar \<Rightarrow> jschar \<Rightarrow> jschar \<Rightarrow> jschar option" where
  "hex4 a b c d =
     (case (hex_value a, hex_value b, hex_value c, hex_value d) of
        (Some x, Some y, Some z, Some w) \<Rightarrow> Some (of_nat (x * 4096 + y * 256 + z * 16 + w))
      | _ \<Rightarrow> None)"

text \<open>The character after a backslash, other than \<open>u\<close>.\<close>

definition simple_escape :: "jschar \<Rightarrow> jschar option" where
  "simple_escape e =
     (if e = 0x22 then Some 0x22
      else if e = 0x5C then Some 0x5C
      else if e = 0x2F then Some 0x2F
      else if e = 0x62 then Some 0x08
      else if e = 0x66 then Some 0x0C
      else if e = 0x6E then Some 0x0A
      else if e = 0x72 then Some 0x0D
      else if e = 0x74 then Some 0x09
      else None)"

definition prepend :: "jschar \<Rightarrow> (jsstring \<times> jsstring) option \<Rightarrow> (jsstring \<times> jsstring) option" where
  "prepend c r = (case r of None \<Rightarrow> None | Some (s, rest) \<Rightarrow> Some (c # s, rest))"

text \<open>
  The characters of a string literal after its opening quote, up to the closing quote:
  the string they denote and the text that follows. A control character that is not
  escaped, a bad escape and a missing closing quote are errors.
\<close>

fun parse_string_body :: "jsstring \<Rightarrow> (jsstring \<times> jsstring) option" where
  "parse_string_body [] = None"
| "parse_string_body (c # cs) =
     (if c = 0x22 then Some ([], cs)
      else if c = 0x5C then
        (case cs of
           [] \<Rightarrow> None
         | e # es \<Rightarrow>
             if e = 0x75 then
               (case es of
                  h1 # h2 # h3 # h4 # rest \<Rightarrow>
                    (case hex4 h1 h2 h3 h4 of
                       None \<Rightarrow> None
                     | Some u \<Rightarrow> prepend u (parse_string_body rest))
                | _ \<Rightarrow> None)
             else
               (case simple_escape e of
                  None \<Rightarrow> None
                | Some u \<Rightarrow> prepend u (parse_string_body es)))
      else if c < 0x20 then None
      else prepend c (parse_string_body cs))"

definition is_digit :: "jschar \<Rightarrow> bool" where
  "is_digit c \<longleftrightarrow> 0x30 \<le> c \<and> c \<le> 0x39"

text \<open>
  A number literal at the head of the text: an optional minus, an integer part without
  a leading zero, an optional fraction, an optional exponent. The result is the literal
  and the text after it.
\<close>

definition parse_int_part :: "jsstring \<Rightarrow> (jsstring \<times> jsstring) option" where
  "parse_int_part s =
     (case s of
        [] \<Rightarrow> None
      | d # ds \<Rightarrow>
          if d = 0x30 then Some ([d], ds)
          else if is_digit d then Some (d # takeWhile is_digit ds, dropWhile is_digit ds)
          else None)"

definition parse_frac_part :: "jsstring \<Rightarrow> (jsstring \<times> jsstring) option" where
  "parse_frac_part s =
     (case s of
        [] \<Rightarrow> Some ([], [])
      | c # cs \<Rightarrow>
          if c = 0x2E then
            (if takeWhile is_digit cs = [] then None
             else Some (c # takeWhile is_digit cs, dropWhile is_digit cs))
          else Some ([], s))"

definition parse_exp_digits :: "jsstring \<Rightarrow> jsstring \<Rightarrow> (jsstring \<times> jsstring) option" where
  "parse_exp_digits pre s =
     (if takeWhile is_digit s = [] then None
      else Some (pre @ takeWhile is_digit s, dropWhile is_digit s))"

definition parse_exp_part :: "jsstring \<Rightarrow> (jsstring \<times> jsstring) option" where
  "parse_exp_part s =
     (case s of
        [] \<Rightarrow> Some ([], [])
      | c # cs \<Rightarrow>
          if c = 0x65 \<or> c = 0x45 then
            (case cs of
               [] \<Rightarrow> None
             | g # gs \<Rightarrow>
                 if g = 0x2B \<or> g = 0x2D then parse_exp_digits [c, g] gs
                 else parse_exp_digits [c] cs)
          else Some ([], s))"

definition parse_unsigned :: "jsstring \<Rightarrow> (jsstring \<times> jsstring) option" where
  "parse_unsigned s =
     (case parse_int_part s of
        None \<Rightarrow> None
      | Some (i, r1) \<Rightarrow>
          (case parse_frac_part r1 of
             None \<Rightarrow> None
           | Some (f, r2) \<Rightarrow>
               (case parse_exp_part r2 of
                  None \<Rightarrow> None
                | Some (e, r3) \<Rightarrow> Some (i @ f @ e, r3))))"

definition parse_number :: "jsstring \<Rightarrow> (jsstring \<times> jsstring) option" where
  "parse_number s =
     (case s of
        [] \<Rightarrow> None
      | c # cs \<Rightarrow>
          if c = 0x2D then
            (case parse_unsigned cs of None \<Rightarrow> None | Some (n, r) \<Rightarrow> Some (c # n, r))
          else parse_unsigned s)"

definition json_ws :: "jschar \<Rightarrow> bool" where
  "json_ws c \<longleftrightarrow> c = 0x20 \<or> c = 0x09 \<or> c = 0x0A \<or> c = 0x0D"

definition cons_token :: "token \<Rightarrow> token list option \<Rightarrow> token list option" where
  "cons_token t r = (case r of None \<Rightarrow> None | Some ts \<Rightarrow> Some (t # ts))"


lemma prepend_Some:
  "prepend c r = Some (s, rest) \<longleftrightarrow> (\<exists>s'. r = Some (s', rest) \<and> s = c # s')"
  by (auto simp: prepend_def split: option.splits)

lemma parse_string_body_shorter:
  "parse_string_body cs = Some (s, r) \<Longrightarrow> length r < length cs"
proof (induction cs arbitrary: s r rule: parse_string_body.induct)
  case 1
  then show ?case by simp
next
  case (2 c cs)
  show ?case
  proof (cases "c = 0x22")
    case True
    with "2.prems" show ?thesis by simp
  next
    case quote: False
    show ?thesis
    proof (cases "c = 0x5C")
      case False
      with quote "2.prems" obtain s' where "parse_string_body cs = Some (s', r)"
        by (auto simp: prepend_Some split: if_splits)
      with "2.IH"(3) [OF quote False] quote False "2.prems" show ?thesis
        by (fastforce split: if_splits)
    next
      case True
      with quote "2.prems" obtain e es where cs: "cs = e # es"
        by (cases cs) auto
      show ?thesis
      proof (cases "e = 0x75")
        case False
        with quote True cs "2.prems" obtain u s' where
          "simple_escape e = Some u" "parse_string_body es = Some (s', r)"
          by (auto simp: prepend_Some split: option.splits)
        with "2.IH"(2) [OF quote True cs False] cs show ?thesis
          by fastforce
      next
        case u: True
        with quote True cs "2.prems" obtain h1 h2 h3 h4 rest v s' where
          es: "es = h1 # h2 # h3 # h4 # rest" and "hex4 h1 h2 h3 h4 = Some v"
          and "parse_string_body rest = Some (s', r)"
          by (auto simp: prepend_Some split: option.splits list.splits)
        with "2.IH"(1) [OF quote True cs u es] cs show ?thesis
          by fastforce
      qed
    qed
  qed
qed

lemma parse_unsigned_shorter:
  "parse_unsigned s = Some (n, r) \<Longrightarrow> length r < length s"
proof -
  have drop_le: "length (dropWhile is_digit xs) \<le> length xs" for xs
    by (rule length_dropWhile_le)
  have int: "parse_int_part s = Some (i, r1) \<Longrightarrow> length r1 < length s" for i r1
    using drop_le by (auto simp: parse_int_part_def le_imp_less_Suc split: list.splits if_splits)
  have frac: "parse_frac_part r1 = Some (f, r2) \<Longrightarrow> length r2 \<le> length r1" for f r1 r2
    using drop_le by (auto simp: parse_frac_part_def le_SucI split: list.splits if_splits)
  have expd: "parse_exp_digits pre x = Some (e, r3) \<Longrightarrow> length r3 \<le> length x" for pre x e r3
    using drop_le by (auto simp: parse_exp_digits_def split: if_splits)
  have exp: "parse_exp_part r2 = Some (e, r3) \<Longrightarrow> length r3 \<le> length r2" for e r2 r3
    by (auto simp: parse_exp_part_def le_SucI split: list.splits if_splits dest!: expd)
  assume "parse_unsigned s = Some (n, r)"
  then obtain i r1 f r2 e where
    "parse_int_part s = Some (i, r1)" "parse_frac_part r1 = Some (f, r2)"
    "parse_exp_part r2 = Some (e, r)"
    by (auto simp: parse_unsigned_def split: option.splits)
  with int frac exp show ?thesis
    by (meson le_trans less_le_trans not_le)
qed

lemma parse_number_shorter:
  "parse_number s = Some (n, r) \<Longrightarrow> length r < length s"
  by (auto simp: parse_number_def split: list.splits if_splits option.splits
      dest!: parse_unsigned_shorter)

function json_lex :: "jsstring \<Rightarrow> token list option" where
  "json_lex [] = Some []"
| "json_lex (c # cs) =
     (if json_ws c then json_lex cs
      else if c = 0x7B then cons_token TLBrace (json_lex cs)
      else if c = 0x7D then cons_token TRBrace (json_lex cs)
      else if c = 0x5B then cons_token TLBracket (json_lex cs)
      else if c = 0x5D then cons_token TRBracket (json_lex cs)
      else if c = 0x2C then cons_token TComma (json_lex cs)
      else if c = 0x3A then cons_token TColon (json_lex cs)
      else if c = 0x22 then
        (case parse_string_body cs of
           None \<Rightarrow> None
         | Some (s, r) \<Rightarrow> cons_token (TValue (JString s)) (json_lex r))
      else if c = 0x6E then
        (if startsWith cs (lit ''ull'') then cons_token (TValue JNull) (json_lex (drop 3 cs))
         else None)
      else if c = 0x74 then
        (if startsWith cs (lit ''rue'') then cons_token (TValue (JBool True)) (json_lex (drop 3 cs))
         else None)
      else if c = 0x66 then
        (if startsWith cs (lit ''alse'') then cons_token (TValue (JBool False)) (json_lex (drop 4 cs))
         else None)
      else if c = 0x2D \<or> is_digit c then
        (case parse_number (c # cs) of
           None \<Rightarrow> None
         | Some (n, r) \<Rightarrow> cons_token (TValue (JNumber n)) (json_lex r))
      else None)"
  by pat_completeness auto
termination
proof (relation "measure length")
  show "wf (measure length)" by simp
qed (auto dest: parse_string_body_shorter parse_number_shorter)

text \<open>
  The automaton. A frame of the stack is an array under construction, an object under
  construction, or an object whose next key has been read.
\<close>

datatype frame =
    ArrFrame "json list"
  | ObjFrame "(jsstring \<times> json) list"
  | KeyFrame "(jsstring \<times> json) list" jsstring

datatype mode =
    WantValue | WantValueOrClose | WantKeyOrClose | WantKey | WantColon | AfterValue
  | Done json

text \<open>
  Property order of an object: array indices (canonical decimal numbers below
  \<open>2^32 - 1\<close>) in ascending order first, then the other keys in the order of their
  creation. Defining a key again replaces its value and keeps its place.
\<close>

definition array_index :: "jsstring \<Rightarrow> nat option" where
  "array_index k =
     (if k \<noteq> [] \<and> list_all is_digit k \<and> (hd k \<noteq> 0x30 \<or> length k = 1)
         \<and> foldl (\<lambda>a c. a * 10 + (unat c - 48)) 0 k < 4294967295
      then Some (foldl (\<lambda>a c. a * 10 + (unat c - 48)) 0 k)
      else None)"

fun insert_index :: "nat \<Rightarrow> jsstring \<Rightarrow> json \<Rightarrow> (jsstring \<times> json) list \<Rightarrow> (jsstring \<times> json) list" where
  "insert_index i k v [] = [(k, v)]"
| "insert_index i k v ((k', v') # rest) =
     (case array_index k' of
        None \<Rightarrow> (k, v) # (k', v') # rest
      | Some j \<Rightarrow>
          if j < i then (k', v') # insert_index i k v rest else (k, v) # (k', v') # rest)"

definition define_property :: "(jsstring \<times> json) list \<Rightarrow> jsstring \<Rightarrow> json \<Rightarrow> (jsstring \<times> json) list" where
  "define_property kvs k v =
     (if k \<in> fst ` set kvs then map (\<lambda>(k', v'). if k' = k then (k', v) else (k', v')) kvs
      else (case array_index k of None \<Rightarrow> kvs @ [(k, v)] | Some i \<Rightarrow> insert_index i k v kvs))"

definition push_value :: "json \<Rightarrow> frame list \<Rightarrow> (frame list \<times> mode) option" where
  "push_value v st =
     (case st of
        [] \<Rightarrow> Some ([], Done v)
      | ArrFrame vs # fs \<Rightarrow> Some (ArrFrame (vs @ [v]) # fs, AfterValue)
      | KeyFrame kvs k # fs \<Rightarrow> Some (ObjFrame (define_property kvs k v) # fs, AfterValue)
      | ObjFrame kvs # fs \<Rightarrow> None)"

definition start_value :: "token \<Rightarrow> frame list \<Rightarrow> (frame list \<times> mode) option" where
  "start_value t st =
     (case t of
        TValue v \<Rightarrow> push_value v st
      | TLBracket \<Rightarrow> Some (ArrFrame [] # st, WantValueOrClose)
      | TLBrace \<Rightarrow> Some (ObjFrame [] # st, WantKeyOrClose)
      | _ \<Rightarrow> None)"

definition read_key :: "token \<Rightarrow> frame list \<Rightarrow> (frame list \<times> mode) option" where
  "read_key t st =
     (case t of
        TValue (JString k) \<Rightarrow>
          (case st of ObjFrame kvs # fs \<Rightarrow> Some (KeyFrame kvs k # fs, WantColon) | _ \<Rightarrow> None)
      | _ \<Rightarrow> None)"

fun parse_step :: "token \<Rightarrow> frame list \<times> mode \<Rightarrow> (frame list \<times> mode) option" where
  "parse_step t (st, WantValue) = start_value t st"
| "parse_step t (st, WantValueOrClose) =
     (case t of
        TRBracket \<Rightarrow> (case st of ArrFrame vs # fs \<Rightarrow> push_value (JArray vs) fs | _ \<Rightarrow> None)
      | _ \<Rightarrow> start_value t st)"
| "parse_step t (st, WantKeyOrClose) =
     (case t of
        TRBrace \<Rightarrow> (case st of ObjFrame kvs # fs \<Rightarrow> push_value (JObject kvs) fs | _ \<Rightarrow> None)
      | _ \<Rightarrow> read_key t st)"
| "parse_step t (st, WantKey) = read_key t st"
| "parse_step t (st, WantColon) = (case t of TColon \<Rightarrow> Some (st, WantValue) | _ \<Rightarrow> None)"
| "parse_step t (st, AfterValue) =
     (case st of
        ArrFrame vs # fs \<Rightarrow>
          (case t of
             TComma \<Rightarrow> Some (st, WantValue)
           | TRBracket \<Rightarrow> push_value (JArray vs) fs
           | _ \<Rightarrow> None)
      | ObjFrame kvs # fs \<Rightarrow>
          (case t of
             TComma \<Rightarrow> Some (st, WantKey)
           | TRBrace \<Rightarrow> push_value (JObject kvs) fs
           | _ \<Rightarrow> None)
      | _ \<Rightarrow> None)"
| "parse_step t (st, Done v) = None"

fun parse_tokens :: "token list \<Rightarrow> frame list \<times> mode \<Rightarrow> (frame list \<times> mode) option" where
  "parse_tokens [] s = Some s"
| "parse_tokens (t # ts) s =
     (case parse_step t s of None \<Rightarrow> None | Some s' \<Rightarrow> parse_tokens ts s')"

section \<open>Errors\<close>

text \<open>
  A thrown JavaScript error, with its \<open>message\<close>. The messages of the errors that the
  engine or a library raises (a SyntaxError of \<open>JSON.parse\<close>, a TypeError of a property
  read) are engine-dependent; the model gives them a fixed text.
\<close>

datatype error = Error (message: jsstring)

definition JSON_parse :: "jsstring \<Rightarrow> error + json" where
  "JSON_parse s =
     (case json_lex s of
        None \<Rightarrow> Inl (Error (lit ''SyntaxError: invalid JSON''))
      | Some ts \<Rightarrow>
          (case parse_tokens ts ([], WantValue) of
             Some ([], Done v) \<Rightarrow> Inr v
           | _ \<Rightarrow> Inl (Error (lit ''SyntaxError: invalid JSON''))))"


section \<open>The SDK, the environment and the calls made to them\<close>

text \<open>
  The blockchain SDK is outside the repository. The model takes it as a record of
  functions, one for each way the service calls it, each giving the outcome of the
  call: the value returned or the error thrown. \<open>readContract\<close> is split by the contract
  method it reads. A \<open>uint256\<close> comes back as a BigInt and is a natural number here.
\<close>

datatype contract = Contract (contract_address: "jsstring option")

record account =
  address :: jsstring

datatype transaction = Transaction nat

record log_entry =
  topics :: "jsstring list option"

record tx_receipt =
  logs :: "log_entry list option"

record send_result =
  transactionHash :: jsstring
  receipt :: "tx_receipt option"

record sdk =
  getContract :: "jsstring option \<Rightarrow> error + contract"
  read_name :: "contract \<Rightarrow> error + jsstring"
  read_symbol :: "contract \<Rightarrow> error + jsstring"
  read_owner :: "contract \<Rightarrow> error + jsstring"
  read_totalSupply :: "contract \<Rightarrow> error + nat"
  read_balanceOf :: "contract \<Rightarrow> jsstring \<Rightarrow> error + nat"
  read_tokenOfOwnerByIndex :: "contract \<Rightarrow> jsstring \<Rightarrow> nat \<Rightarrow> error + nat"
  read_tokenURI :: "contract \<Rightarrow> nat \<Rightarrow> error + jsstring"
  privateKeyToAccount :: "jsstring \<Rightarrow> error + account"
  prepareContractCall :: "contract \<Rightarrow> jsstring \<Rightarrow> jsstring \<Rightarrow> error + transaction"
  sendTransaction :: "transaction \<Rightarrow> account \<Rightarrow> error + send_result"

text \<open>
  \<open>process.env\<close> (a variable that is not set reads as \<open>undefined\<close>, here \<open>None\<close>) and the
  clock: \<open>now_iso\<close> is what \<open>new Date().toISOString()\<close> returns during the call.
\<close>

record env =
  NFT_CONTRACT_ADDRESS :: "jsstring option"
  SERVER_API_KEY :: "jsstring option"
  now_iso :: jsstring

text \<open>
  Every call to the SDK is recorded, in order, with its arguments. A computation of the
  service yields the calls it made and either the error it threw or the value it
  returned. What the service writes to the console is left out, and writing it is taken
  not to throw.
\<close>

datatype sdk_call =
    GetContract "jsstring option"
  | ReadName | ReadSymbol | ReadOwner | ReadTotalSupply
  | BalanceOf jsstring
  | TokenOfOwnerByIndex jsstring nat
  | TokenURI nat
  | PrivateKeyToAccount jsstring
  | PrepareContractCall jsstring jsstring
  | SendTransaction transaction account

type_synonym 'a io = "sdk_call list \<times> (error + 'a)"

definition returnE :: "'a \<Rightarrow> 'a io" where
  "returnE x = ([], Inr x)"

definition throwE :: "error \<Rightarrow> 'a io" where
  "throwE e = ([], Inl e)"

definition call :: "sdk_call \<Rightarrow> error + 'a \<Rightarrow> 'a io" where
  "call c outcome = ([c], outcome)"

definition lift :: "error + 'a \<Rightarrow> 'a io" where
  "lift outcome = ([], outcome)"

definition bindE :: "'a io \<Rightarrow> ('a \<Rightarrow> 'b io) \<Rightarrow> 'b io" where
  "bindE m f =
     (case m of
        (tr, Inl e) \<Rightarrow> (tr, Inl e)
      | (tr, Inr x) \<Rightarrow> (case f x of (tr', r) \<Rightarrow> (tr @ tr', r)))"

text \<open>\<open>try { m } catch (error) { h error }\<close>\<close>

definition catchE :: "'a io \<Rightarrow> (error \<Rightarrow> 'a io) \<Rightarrow> 'a io" where
  "catchE m h =
     (case m of
        (tr, Inl e) \<Rightarrow> (case h e of (tr', r) \<Rightarrow> (tr @ tr', r))
      | (tr, Inr x) \<Rightarrow> (tr, Inr x))"

section \<open>The NFT service\<close>

text \<open>
  A parameter documented as a string that may be left out (\<open>null\<close> by default) is a
  \<open>jsstring option\<close>. \<open>!s || s.trim() === ""\<close> on such a parameter:
\<close>

definition is_blank :: "jsstring option \<Rightarrow> bool" where
  "is_blank v = (case v of None \<Rightarrow> True | Some s \<Rightarrow> s = [] \<or> js_trim s = [])"

text \<open>\<open>v || d\<close> on an optional string: \<open>null\<close>, \<open>undefined\<close> and the empty string are falsy.\<close>

definition or_default :: "jsstring option \<Rightarrow> jsstring \<Rightarrow> jsstring" where
  "or_default v d = (case v of None \<Rightarrow> d | Some s \<Rightarrow> if s = [] then d else s)"

text \<open>An optional string inside string concatenation.\<close>

definition string_of :: "jsstring option \<Rightarrow> jsstring" where
  "string_of v = (case v of None \<Rightarrow> lit ''undefined'' | Some s \<Rightarrow> s)"

subsection \<open>\<open>getContractInfo\<close>\<close>

record contractInfo =
  info_name :: jsstring
  info_symbol :: jsstring
  info_owner :: jsstring
  info_totalSupply :: jsstring
  info_address :: "jsstring option"

definition getContractInfo :: "sdk \<Rightarrow> env \<Rightarrow> contractInfo io" where
  "getContractInfo client env =
     catchE
       (bindE (call (GetContract (NFT_CONTRACT_ADDRESS env))
                 (getContract client (NFT_CONTRACT_ADDRESS env))) (\<lambda>contract.
        bindE (call ReadName (read_name client contract)) (\<lambda>name.
        bindE (call ReadSymbol (read_symbol client contract)) (\<lambda>symbol.
        bindE (catchE (call ReadOwner (read_owner client contract))
                 (\<lambda>error. returnE (lit ''unknown''))) (\<lambda>owner.
        bindE (call ReadTotalSupply (read_totalSupply client contract)) (\<lambda>totalSupply.
        returnE \<lparr>info_name = name, info_symbol = symbol, info_owner = owner,
                 info_totalSupply = show_nat totalSupply,
                 info_address = NFT_CONTRACT_ADDRESS env\<rparr>))))))
       (\<lambda>error. throwE (Error (lit ''Failed to get contract info: '' @ message error)))"

subsection \<open>\<open>mintTextNFT\<close>\<close>

text \<open>The metadata object of lines 103 to 116 and its data URI of lines 119 to 121.\<close>

definition metadata :: "env \<Rightarrow> jsstring \<Rightarrow> jsstring option \<Rightarrow> json" where
  "metadata env text description =
     JObject
       [(lit ''name'', JString (lit ''CRUXZ NFT'')),
        (lit ''description'', JString (or_default description (lit ''CRUXZ NFT''))),
        (lit ''attributes'',
           JArray
             [JObject [(lit ''trait_type'', JString (lit ''Text'')), (lit ''value'', JString text)],
              JObject [(lit ''trait_type'', JString (lit ''Created At'')),
                       (lit ''value'', JString (now_iso env))]])]"

definition metadataUri :: "json \<Rightarrow> jsstring" where
  "metadataUri m =
     lit ''data:application/json;base64,'' @ base64_encode (utf8_encode (JSON_stringify m))"

text \<open>
  The two shapes of the object \<open>mintTextNFT\<close> returns, told apart by \<open>status\<close>. The token
  id is \<open>None\<close> when the JavaScript value is \<open>undefined\<close>.
\<close>

datatype mint_result =
    Prepared (prepared_message: jsstring) (prepared_contract: "jsstring option")
      (prepared_tokenMetadata: json) (prepared_instructions: "jsstring list")
  | Minted (minted_tokenId: "jsstring option") (minted_transactionHash: jsstring) (minted_to: jsstring)
      (minted_metadata: json)

definition status :: "mint_result \<Rightarrow> jsstring" where
  "status r = (case r of Prepared _ _ _ _ \<Rightarrow> lit ''prepared'' | Minted _ _ _ _ \<Rightarrow> lit ''minted'')"

text \<open>
  Lines 205 to 207, the body of the inner \<open>try\<close>: reading \<open>logs\<close> of a receipt that is
  not there, or \<open>topics\<close> of a log that has none, throws a TypeError; \<open>topics[3]\<close> of an
  array with fewer than four entries is \<open>undefined\<close>.
\<close>

definition read_tokenId :: "send_result \<Rightarrow> error + jsstring option" where
  "read_tokenId result =
     (case receipt result of
        None \<Rightarrow> Inl (Error (lit ''TypeError: Cannot read properties of undefined (reading logs)''))
      | Some r \<Rightarrow>
          (case logs r of
             None \<Rightarrow> Inr (Some (lit ''unknown''))
           | Some events \<Rightarrow>
               (case events of
                  [] \<Rightarrow> Inr (Some (lit ''unknown''))
                | e # _ \<Rightarrow>
                    (case topics e of
                       None \<Rightarrow> Inl (Error (lit ''TypeError: Cannot read properties of undefined (reading 3)''))
                     | Some ts \<Rightarrow> Inr (if 3 < length ts then Some (ts ! 3) else None)))))"

text \<open>Lines 201 to 210: the token id starts as \<open>"unknown"\<close> and the \<open>catch\<close> leaves it so.\<close>

definition extract_tokenId :: "send_result \<Rightarrow> jsstring option" where
  "extract_tokenId result =
     (case read_tokenId result of Inl error \<Rightarrow> Some (lit ''unknown'') | Inr t \<Rightarrow> t)"

text \<open>Lines 165 to 167 (and the same expression in the test route).\<close>

definition formattedPrivateKey :: "jsstring \<Rightarrow> jsstring" where
  "formattedPrivateKey privateKeyStr =
     (if startsWith privateKeyStr (lit ''0x'') then substring privateKeyStr 2 else privateKeyStr)"

text \<open>The message of lines 159 to 161 (and of the test route).\<close>

definition invalid_length_message :: "jsstring \<Rightarrow> jsstring" where
  "invalid_length_message privateKeyStr =
     lit ''Invalid private key length: '' @ show_nat (length privateKeyStr)
       @ lit ''. Expected 64 or 66 characters.''"

definition mintTextNFT ::
  "sdk \<Rightarrow> env \<Rightarrow> jsstring \<Rightarrow> bool \<Rightarrow> jsstring option \<Rightarrow> jsstring option \<Rightarrow> jsstring option
     \<Rightarrow> mint_result io" where
  "mintTextNFT client env text performMint privateKey toAddress description =
     catchE
       (bindE (call (GetContract (NFT_CONTRACT_ADDRESS env))
                 (getContract client (NFT_CONTRACT_ADDRESS env))) (\<lambda>contract.
        if \<not> performMint then
          returnE (Prepared
            (lit ''To mint an NFT, you need to call this contract directly with the owner'' @ [0x27]
               @ lit ''s wallet'')
            (NFT_CONTRACT_ADDRESS env)
            (metadata env text description)
            [lit ''1. Connect your wallet to Thirdweb dashboard'',
             lit ''2. Access your contract at '' @ string_of (NFT_CONTRACT_ADDRESS env),
             lit ''3. Use the mintTo function with your wallet address and the metadata'',
             lit ''4. Or integrate a client-side wallet connector like Metamask''])
        else if is_blank privateKey then
          throwE (Error (lit ''Private key is required for minting but not provided''))
        else if is_blank toAddress then
          throwE (Error (lit ''Wallet address (toAddress) is required for minting but not provided''))
        else if length (js_trim (string_of privateKey)) \<noteq> 64
                \<and> length (js_trim (string_of privateKey)) \<noteq> 66 then
          throwE (Error (invalid_length_message (js_trim (string_of privateKey))))
        else
          bindE (call (PrivateKeyToAccount (formattedPrivateKey (js_trim (string_of privateKey))))
                   (privateKeyToAccount client (formattedPrivateKey (js_trim (string_of privateKey)))))
            (\<lambda>account.
          bindE (call (PrepareContractCall (string_of toAddress)
                         (metadataUri (metadata env text description)))
                   (prepareContractCall client contract (string_of toAddress)
                      (metadataUri (metadata env text description)))) (\<lambda>transaction.
          bindE (call (SendTransaction transaction account)
                   (sendTransaction client transaction account)) (\<lambda>result.
          returnE (Minted (extract_tokenId result) (transactionHash result) (string_of toAddress)
                     (metadata env text description)))))))
       (\<lambda>error. throwE (Error (lit ''Failed to mint NFT: '' @ message error)))"

subsection \<open>\<open>mintTextNFTWithPrivateKey\<close>\<close>

definition mintTextNFTWithPrivateKey ::
  "sdk \<Rightarrow> env \<Rightarrow> jsstring \<Rightarrow> jsstring option \<Rightarrow> jsstring option \<Rightarrow> jsstring option
     \<Rightarrow> mint_result io" where
  "mintTextNFTWithPrivateKey client env text privateKey toAddress description =
     catchE
       (if is_blank privateKey then
          throwE (Error (lit ''Private key is required for minting''))
        else if is_blank toAddress then
          throwE (Error (lit ''Wallet address (toAddress) is required for minting''))
        else mintTextNFT client env text True privateKey toAddress description)
       (\<lambda>error. throwE (Error (lit ''Failed to mint NFT: '' @ message error)))"


subsection \<open>\<open>getWalletNFTs\<close>\<close>

text \<open>\<open>s.replace(pat, rep)\<close> with a string pattern: the first occurrence only.\<close>

fun replace_first :: "jsstring \<Rightarrow> jsstring \<Rightarrow> jsstring \<Rightarrow> jsstring" where
  "replace_first [] pat rep = (if pat = [] then rep else [])"
| "replace_first (c # cs) pat rep =
     (if startsWith (c # cs) pat then rep @ drop (length pat) (c # cs)
      else c # replace_first cs pat rep)"

text \<open>
  Reading one of the properties \<open>name\<close>, \<open>description\<close>, \<open>attributes\<close> of a parsed value:
  a TypeError on \<open>null\<close>, the property of an object if it has it, \<open>undefined\<close> otherwise
  (no string, number, boolean or array has a property of these names).
\<close>

definition get_property :: "json \<Rightarrow> jsstring \<Rightarrow> error + json option" where
  "get_property v k =
     (case v of
        JNull \<Rightarrow> Inl (Error (lit ''TypeError: Cannot read properties of null''))
      | JObject kvs \<Rightarrow> Inr (map_of kvs k)
      | _ \<Rightarrow> Inr None)"

text \<open>
  A number literal denotes \<open>m * 10 ^ e\<close> (up to its sign), with \<open>m\<close> the digits of its
  integer part and of its fraction read as one natural number, and \<open>e\<close> its exponent less
  the number of digits of the fraction.
\<close>

definition digits_value :: "jsstring \<Rightarrow> nat" where
  "digits_value ds = foldl (\<lambda>a c. a * 10 + (unat c - 48)) 0 ds"

definition number_parts :: "jsstring \<Rightarrow> nat \<times> int" where
  "number_parts n =
     (let u = dropWhile (\<lambda>c. c = 0x2D) n;
          i = takeWhile is_digit u;
          r1 = dropWhile is_digit u;
          f = (case r1 of [] \<Rightarrow> [] | c # cs \<Rightarrow> if c = 0x2E then takeWhile is_digit cs else []);
          r2 = (case r1 of [] \<Rightarrow> [] | c # cs \<Rightarrow> if c = 0x2E then dropWhile is_digit cs else r1);
          x = (case r2 of
                 [] \<Rightarrow> 0
               | c # cs \<Rightarrow>
                   (case cs of
                      [] \<Rightarrow> 0
                    | g # gs \<Rightarrow>
                        if g = 0x2D then - int (digits_value gs)
                        else if g = 0x2B then int (digits_value gs)
                        else int (digits_value cs)))
      in (digits_value (i @ f), x - int (length f)))"

text \<open>
  Truthiness. A number is falsy when it is zero (JSON has no NaN). \<open>JSON.parse\<close> turns
  the literal into the nearest double, ties to even, so the number is zero exactly when
  \<open>m * 10 ^ e\<close> is at most \<open>2 ^ -1075\<close>, half of the smallest positive double.
\<close>

definition zero_number :: "jsstring \<Rightarrow> bool" where
  "zero_number n \<longleftrightarrow>
     (case number_parts n of
        (m, e) \<Rightarrow> m = 0 \<or> (e < 0 \<and> m * 2 ^ 1075 \<le> 10 ^ nat (- e)))"

definition truthy :: "json \<Rightarrow> bool" where
  "truthy v =
     (case v of
        JNull \<Rightarrow> False
      | JBool b \<Rightarrow> b
      | JNumber n \<Rightarrow> \<not> zero_number n
      | JString s \<Rightarrow> s \<noteq> []
      | JArray _ \<Rightarrow> True
      | JObject _ \<Rightarrow> True)"

text \<open>\<open>v || d\<close> where \<open>v\<close> is a property that was read.\<close>

definition or_else :: "json option \<Rightarrow> json \<Rightarrow> json" where
  "or_else v d = (case v of None \<Rightarrow> d | Some x \<Rightarrow> if truthy x then x else d)"

record walletNft =
  nft_tokenId :: jsstring
  nft_name :: json
  nft_description :: json
  nft_attributes :: json

text \<open>Lines 310 to 322: the metadata of a token, decoded from its URI or made up.\<close>

definition decode_metadata :: "jsstring \<Rightarrow> nat \<Rightarrow> error + json" where
  "decode_metadata tokenUri tokenId =
     (if startsWith tokenUri (lit ''data:application/json;base64,'') then
        JSON_parse (utf8_decode (base64_decode
          (replace_first tokenUri (lit ''data:application/json;base64,'') [])))
      else
        Inr (JObject
          [(lit ''name'', JString (lit ''Token #'' @ show_nat tokenId)),
           (lit ''description'', JString (lit ''No metadata available''))]))"

text \<open>Lines 324 to 329: the entry pushed for a token.\<close>

definition wallet_entry :: "nat \<Rightarrow> json \<Rightarrow> error + walletNft" where
  "wallet_entry tokenId md =
     (case get_property md (lit ''name'') of
        Inl e \<Rightarrow> Inl e
      | Inr n \<Rightarrow>
          (case get_property md (lit ''description'') of
             Inl e \<Rightarrow> Inl e
           | Inr d \<Rightarrow>
               (case get_property md (lit ''attributes'') of
                  Inl e \<Rightarrow> Inl e
                | Inr a \<Rightarrow>
                    Inr \<lparr>nft_tokenId = show_nat tokenId,
                         nft_name = or_else n (JString (lit ''Token #'' @ show_nat tokenId)),
                         nft_description = or_else d (JString []),
                         nft_attributes = or_else a (JArray [])\<rparr>)))"

text \<open>Lines 294 to 329, the body of the \<open>try\<close> inside the loop, for the index \<open>i\<close>.\<close>

definition resolve_token :: "sdk \<Rightarrow> contract \<Rightarrow> jsstring \<Rightarrow> nat \<Rightarrow> walletNft io" where
  "resolve_token client contract walletAddress i =
     bindE (call (TokenOfOwnerByIndex walletAddress i)
              (read_tokenOfOwnerByIndex client contract walletAddress i)) (\<lambda>tokenId.
     bindE (call (TokenURI tokenId) (read_tokenURI client contract tokenId)) (\<lambda>tokenUri.
     bindE (lift (decode_metadata tokenUri tokenId)) (\<lambda>md.
     lift (wallet_entry tokenId md))))"

text \<open>
  The numbers of the loop are doubles that hold a non-negative integer, or \<open>Infinity\<close>.
  A natural number is rounded to the nearest double, ties to even: \<open>double_exponent n\<close>
  is the number of low bits that do not fit the 53 bits of a mantissa, and \<open>round_double\<close>
  rounds them away. A number below \<open>2^53\<close> is a double as it is.
\<close>

function double_exponent :: "nat \<Rightarrow> nat" where
  "double_exponent n = (if n < 2 ^ 53 then 0 else Suc (double_exponent (n div 2)))"
  by pat_completeness auto
termination
  by (relation "measure id") auto

declare double_exponent.simps [simp del]

definition round_double :: "nat \<Rightarrow> nat" where
  "round_double n =
     (let e = double_exponent n; q = n div 2 ^ e; r = n mod 2 ^ e
      in if 2 * r < 2 ^ e \<or> (2 * r = 2 ^ e \<and> even q) then q * 2 ^ e else (q + 1) * 2 ^ e)"

text \<open>
  \<open>Number(balance)\<close> on a BigInt: the nearest double, and \<open>Infinity\<close> when the rounding
  reaches \<open>2^1024\<close>. \<open>below i b\<close> is the test \<open>i < b\<close> of the loop.
\<close>

datatype number = Finite nat | Infinity

definition Number :: "nat \<Rightarrow> number" where
  "Number b = (if round_double b < 2 ^ 1024 then Finite (round_double b) else Infinity)"

fun below :: "nat \<Rightarrow> number \<Rightarrow> bool" where
  "below i (Finite b) \<longleftrightarrow> i < b"
| "below i Infinity \<longleftrightarrow> True"

text \<open>
  The loop of lines 292 to 333, from the index \<open>i\<close> on, with the calls made and the
  entries pushed so far. A failing index adds its calls and no entry. The counter is a
  double, and \<open>i++\<close> rounds \<open>i + 1\<close>: it is exact up to \<open>2^53\<close> and leaves \<open>2^53\<close> as it is,
  so a loop whose bound is above \<open>2^53\<close> never ends. The result is \<open>None\<close> when the loop
  does not end.
\<close>

partial_function (option) wallet_loop ::
  "sdk \<Rightarrow> contract \<Rightarrow> jsstring \<Rightarrow> number \<Rightarrow> nat \<Rightarrow> sdk_call list \<times> walletNft list
     \<Rightarrow> (sdk_call list \<times> walletNft list) option" where
  [code]: "wallet_loop client contract walletAddress balanceNum i acc =
     (if below i balanceNum then
        (case resolve_token client contract walletAddress i of
           (tr', Inl err) \<Rightarrow>
             wallet_loop client contract walletAddress balanceNum (round_double (i + 1))
               (fst acc @ tr', snd acc)
         | (tr', Inr nft) \<Rightarrow>
             wallet_loop client contract walletAddress balanceNum (round_double (i + 1))
               (fst acc @ tr', snd acc @ [nft]))
      else Some acc)"

text \<open>
  A computation that may never finish is an optional computation, \<open>None\<close> when it does
  not finish. Sequencing and \<open>try\<close>/\<open>catch\<close> for these:
\<close>

definition bindP :: "'a io \<Rightarrow> ('a \<Rightarrow> 'b io option) \<Rightarrow> 'b io option" where
  "bindP m f =
     (case m of
        (tr, Inl e) \<Rightarrow> Some (tr, Inl e)
      | (tr, Inr x) \<Rightarrow> map_option (\<lambda>(tr', r). (tr @ tr', r)) (f x))"

definition catchP :: "'a io option \<Rightarrow> (error \<Rightarrow> 'a io) \<Rightarrow> 'a io option" where
  "catchP m h = map_option (\<lambda>r. catchE r h) m"

definition getWalletNFTs :: "sdk \<Rightarrow> env \<Rightarrow> jsstring \<Rightarrow> walletNft list io option" where
  "getWalletNFTs client env walletAddress =
     catchP
       (bindP (call (GetContract (NFT_CONTRACT_ADDRESS env))
                 (getContract client (NFT_CONTRACT_ADDRESS env))) (\<lambda>contract.
        bindP (call (BalanceOf walletAddress) (read_balanceOf client contract walletAddress))
          (\<lambda>balance.
        map_option (\<lambda>(tr, nfts). (tr, Inr nfts))
          (wallet_loop client contract walletAddress (Number balance) 0 ([], [])))))
       (\<lambda>error. throwE (Error (lit ''Failed to fetch NFTs: '' @ message error)))"


section \<open>The HTTP surface\<close>

text \<open>
  A request is taken after Express has matched its route and parsed its body. The
  fields of a body are optional strings, as the specification's request types have
  them; \<open>None\<close> is a field that is missing. A server yields \<open>None\<close> for a request that
  none of its handlers answers: one that matches no route, which Express answers itself,
  and one whose handler never finishes. A response is its status, the headers the
  handler sets, and the JSON value that \<open>res.json\<close> sends.
\<close>

datatype route =
    Health | ContractRoute | MintPrepare | MintText | MintWithPrivateKey
  | NftsPost | NftsGet jsstring | TestPrivateKey

record body =
  body_text :: "jsstring option"
  body_privateKey :: "jsstring option"
  body_toAddress :: "jsstring option"
  body_walletAddress :: "jsstring option"

record request =
  req_route :: route
  x_api_key :: "jsstring option"
  req_body :: body

record response =
  res_status :: nat
  res_headers :: "(jsstring \<times> jsstring) list"
  res_body :: json

text \<open>\<open>!s\<close> on an optional string.\<close>

definition falsy :: "jsstring option \<Rightarrow> bool" where
  "falsy v = (case v of None \<Rightarrow> True | Some s \<Rightarrow> s = [])"

text \<open>
  An object literal handed to \<open>res.json\<close>: a property whose value is \<open>undefined\<close> is left
  out of what is sent.
\<close>

definition sent_object :: "(jsstring \<times> json option) list \<Rightarrow> json" where
  "sent_object kvs =
     JObject (List.map_filter (\<lambda>(k, v). case v of None \<Rightarrow> None | Some x \<Rightarrow> Some (k, x)) kvs)"

definition failure :: "nat \<Rightarrow> (jsstring \<times> jsstring) list \<Rightarrow> jsstring \<Rightarrow> response" where
  "failure code hs err =
     \<lparr>res_status = code, res_headers = hs,
      res_body = JObject [(lit ''success'', JBool False), (lit ''error'', JString err)]\<rparr>"

definition failure_details ::
  "nat \<Rightarrow> (jsstring \<times> jsstring) list \<Rightarrow> jsstring \<Rightarrow> jsstring \<Rightarrow> response" where
  "failure_details code hs err details =
     \<lparr>res_status = code, res_headers = hs,
      res_body = JObject [(lit ''success'', JBool False), (lit ''error'', JString err),
                          (lit ''details'', JString details)]\<rparr>"

definition contract_json :: "contractInfo \<Rightarrow> json" where
  "contract_json info =
     sent_object
       [(lit ''name'', Some (JString (info_name info))),
        (lit ''symbol'', Some (JString (info_symbol info))),
        (lit ''owner'', Some (JString (info_owner info))),
        (lit ''totalSupply'', Some (JString (info_totalSupply info))),
        (lit ''address'', map_option JString (info_address info))]"

definition nft_json :: "walletNft \<Rightarrow> json" where
  "nft_json n =
     JObject
       [(lit ''tokenId'', JString (nft_tokenId n)), (lit ''name'', nft_name n),
        (lit ''description'', nft_description n), (lit ''attributes'', nft_attributes n)]"

text \<open>\<open>/^0x[a-fA-F0-9]{40}$/.test(s)\<close>\<close>

definition is_hex_digit :: "jschar \<Rightarrow> bool" where
  "is_hex_digit c \<longleftrightarrow>
     (0x30 \<le> c \<and> c \<le> 0x39) \<or> (0x41 \<le> c \<and> c \<le> 0x46) \<or> (0x61 \<le> c \<and> c \<le> 0x66)"

definition ethAddressRegex_test :: "jsstring \<Rightarrow> bool" where
  "ethAddressRegex_test s \<longleftrightarrow>
     length s = 42 \<and> take 2 s = lit ''0x'' \<and> list_all is_hex_digit (drop 2 s)"

text \<open>The wallet address as the secured server shows it.\<close>

definition masked_wallet :: "jsstring \<Rightarrow> jsstring" where
  "masked_wallet walletAddress =
     substring2 walletAddress 0 6 @ lit ''...'' @ substring walletAddress (length walletAddress - 4)"

subsection \<open>Handlers shared by the two servers\<close>

definition contract_handler :: "sdk \<Rightarrow> env \<Rightarrow> sdk_call list \<times> response" where
  "contract_handler client env =
     (case getContractInfo client env of
        (tr, Inr contractInfo) \<Rightarrow>
          (tr, \<lparr>res_status = 200, res_headers = [],
                res_body = JObject [(lit ''success'', JBool True),
                                    (lit ''contract'', contract_json contractInfo)]\<rparr>)
      | (tr, Inl error) \<Rightarrow>
          (tr, failure_details 500 [] (lit ''Failed to fetch contract info'') (message error)))"

definition prepare_handler :: "sdk \<Rightarrow> env \<Rightarrow> body \<Rightarrow> sdk_call list \<times> response" where
  "prepare_handler client env b =
     (if falsy (body_text b) then ([], failure 400 [] (lit ''Missing required field: text''))
      else
        (case mintTextNFT client env (string_of (body_text b)) False None None None of
           (tr, Inr result) \<Rightarrow>
             (tr, \<lparr>res_status = 200, res_headers = [],
                   res_body =
                     (case result of
                        Prepared msg addr md instrs \<Rightarrow>
                          sent_object
                            [(lit ''success'', Some (JBool True)),
                             (lit ''status'', Some (JString (lit ''prepared''))),
                             (lit ''message'', Some (JString msg)),
                             (lit ''contract'', map_option JString addr),
                             (lit ''metadata'', Some md),
                             (lit ''instructions'', Some (JArray (map JString instrs)))]
                      | Minted _ _ _ _ \<Rightarrow>
                          sent_object
                            [(lit ''success'', Some (JBool True)),
                             (lit ''status'', Some (JString (lit ''prepared'')))])\<rparr>)
         | (tr, Inl error) \<Rightarrow>
             (tr, failure_details 500 [] (lit ''Failed to prepare NFT'') (message error))))"

text \<open>The body sent for a minted token; \<open>Prepared\<close> has none of the four properties read.\<close>

definition minted_body :: "mint_result \<Rightarrow> json" where
  "minted_body result =
     (case result of
        Minted tid hash recipient md \<Rightarrow>
          sent_object
            [(lit ''success'', Some (JBool True)),
             (lit ''status'', Some (JString (lit ''minted''))),
             (lit ''tokenId'', map_option JString tid),
             (lit ''transactionHash'', Some (JString hash)),
             (lit ''to'', Some (JString recipient)),
             (lit ''metadata'', Some md)]
      | Prepared _ _ _ _ \<Rightarrow>
          sent_object
            [(lit ''success'', Some (JBool True)),
             (lit ''status'', Some (JString (lit ''minted'')))])"

definition mint_handler :: "sdk \<Rightarrow> env \<Rightarrow> body \<Rightarrow> sdk_call list \<times> response" where
  "mint_handler client env b =
     (if falsy (body_text b) then ([], failure 400 [] (lit ''Missing required field: text''))
      else if is_blank (body_privateKey b) then
        ([], failure 400 [] (lit ''Missing required field: privateKey''))
      else if is_blank (body_toAddress b) then
        ([], failure 400 [] (lit ''Missing required field: toAddress (wallet address)''))
      else
        (case mintTextNFT client env (string_of (body_text b)) True (body_privateKey b)
                (body_toAddress b) None of
           (tr, Inr result) \<Rightarrow>
             if status result = lit ''minted'' then
               (tr, \<lparr>res_status = 200, res_headers = [], res_body = minted_body result\<rparr>)
             else
               (tr, failure_details 500 [] (lit ''Failed to mint NFT'')
                      (lit ''Unexpected response from minting function''))
         | (tr, Inl error) \<Rightarrow>
             (tr, failure_details 500 [] (lit ''Failed to mint NFT'') (message error))))"

subsection \<open>The first server (\<open>src/index.js\<close>)\<close>

definition health_handler :: "response" where
  "health_handler =
     \<lparr>res_status = 200, res_headers = [],
      res_body = JObject [(lit ''status'', JString (lit ''healthy''))]\<rparr>"

definition mint_with_private_key_handler :: "sdk \<Rightarrow> env \<Rightarrow> body \<Rightarrow> sdk_call list \<times> response" where
  "mint_with_private_key_handler client env b =
     (if falsy (body_text b) then ([], failure 400 [] (lit ''Missing required field: text''))
      else if falsy (body_privateKey b) then
        ([], failure 400 [] (lit ''Missing required field: privateKey''))
      else if is_blank (body_toAddress b) then
        ([], failure 400 [] (lit ''Missing required field: toAddress (wallet address)''))
      else
        (case mintTextNFTWithPrivateKey client env (string_of (body_text b)) (body_privateKey b)
                (body_toAddress b) None of
           (tr, Inr result) \<Rightarrow>
             (tr, \<lparr>res_status = 200, res_headers = [], res_body = minted_body result\<rparr>)
         | (tr, Inl error) \<Rightarrow>
             (tr, failure_details 500 [] (lit ''Failed to mint NFT'') (message error))))"

definition nfts_handler ::
  "sdk \<Rightarrow> env \<Rightarrow> jsstring \<Rightarrow> (sdk_call list \<times> response) option" where
  "nfts_handler client env walletAddress =
     (if walletAddress = [] then
        Some ([], failure 400 [] (lit ''Missing required parameter: walletAddress''))
      else
        (case getWalletNFTs client env walletAddress of
           None \<Rightarrow> None
         | Some (tr, Inr nfts) \<Rightarrow>
             Some (tr, \<lparr>res_status = 200, res_headers = [],
                   res_body =
                     JObject
                       [(lit ''success'', JBool True),
                        (lit ''wallet'', JString walletAddress),
                        (lit ''count'', JNumber (show_nat (length nfts))),
                        (lit ''nfts'', JArray (map nft_json nfts))]\<rparr>)
         | Some (tr, Inl error) \<Rightarrow>
             Some (tr, failure_details 500 [] (lit ''Failed to fetch NFTs'') (message error))))"

definition test_private_key_handler :: "sdk \<Rightarrow> body \<Rightarrow> sdk_call list \<times> response" where
  "test_private_key_handler client b =
     (if falsy (body_privateKey b) then
        ([], failure 400 [] (lit ''Missing required field: privateKey''))
      else if length (js_trim (string_of (body_privateKey b))) \<noteq> 64
              \<and> length (js_trim (string_of (body_privateKey b))) \<noteq> 66 then
        ([], failure 400 [] (invalid_length_message (js_trim (string_of (body_privateKey b)))))
      else
        (case call (PrivateKeyToAccount
                      (formattedPrivateKey (js_trim (string_of (body_privateKey b)))))
                (privateKeyToAccount client
                   (formattedPrivateKey (js_trim (string_of (body_privateKey b))))) of
           (tr, Inr account) \<Rightarrow>
             (tr, \<lparr>res_status = 200, res_headers = [],
                   res_body =
                     JObject
                       [(lit ''success'', JBool True),
                        (lit ''message'', JString (lit ''Private key formatted correctly'')),
                        (lit ''derivedAddress'', JString (address account)),
                        (lit ''originalLength'',
                           JNumber (show_nat (length (js_trim (string_of (body_privateKey b)))))),
                        (lit ''formattedLength'',
                           JNumber (show_nat (length (formattedPrivateKey
                             (js_trim (string_of (body_privateKey b))))))),
                        (lit ''hadPrefix'',
                           JBool (startsWith (js_trim (string_of (body_privateKey b))) (lit ''0x'')))]\<rparr>)
         | (tr, Inl error) \<Rightarrow>
             (tr, failure_details 400 [] (lit ''Invalid private key format'') (message error))))"

definition index_app :: "sdk \<Rightarrow> env \<Rightarrow> request \<Rightarrow> (sdk_call list \<times> response) option" where
  "index_app client env req =
     (case req_route req of
        Health \<Rightarrow> Some ([], health_handler)
      | ContractRoute \<Rightarrow> Some (contract_handler client env)
      | MintPrepare \<Rightarrow> Some (prepare_handler client env (req_body req))
      | MintText \<Rightarrow> Some (mint_handler client env (req_body req))
      | MintWithPrivateKey \<Rightarrow> Some (mint_with_private_key_handler client env (req_body req))
      | NftsPost \<Rightarrow> None
      | NftsGet walletAddress \<Rightarrow> nfts_handler client env walletAddress
      | TestPrivateKey \<Rightarrow> Some (test_private_key_handler client (req_body req)))"


subsection \<open>The secured server\<close>

text \<open>A middleware either sends a response, which ends the request, or calls \<open>next()\<close>.\<close>

datatype verdict = Respond response | Next

definition validateApiKey :: "env \<Rightarrow> request \<Rightarrow> verdict" where
  "validateApiKey env req =
     (if falsy (x_api_key req) then
        Respond
          \<lparr>res_status = 401, res_headers = [],
           res_body =
             JObject
               [(lit ''success'', JBool False),
                (lit ''error'', JString (lit ''API key is required'')),
                (lit ''message'',
                   JString (lit ''Please provide an API key in the '' @ [0x27] @ lit ''x-api-key''
                     @ [0x27] @ lit '' header''))]\<rparr>
      else if x_api_key req \<noteq> SERVER_API_KEY env then
        Respond
          \<lparr>res_status = 403, res_headers = [],
           res_body =
             JObject
               [(lit ''success'', JBool False),
                (lit ''error'', JString (lit ''Invalid API key'')),
                (lit ''message'', JString (lit ''The provided API key is not valid''))]\<rparr>
      else Next)"

definition secure_health_handler :: "env \<Rightarrow> response" where
  "secure_health_handler env =
     \<lparr>res_status = 200, res_headers = [],
      res_body =
        JObject
          [(lit ''status'', JString (lit ''healthy'')),
           (lit ''message'', JString (lit ''API is functioning correctly'')),
           (lit ''timestamp'', JString (now_iso env))]\<rparr>"

definition nfts_post_handler ::
  "sdk \<Rightarrow> env \<Rightarrow> body \<Rightarrow> (sdk_call list \<times> response) option" where
  "nfts_post_handler client env b =
     (if falsy (body_walletAddress b) then
        Some ([], failure 400 [] (lit ''Missing required field: walletAddress''))
      else if \<not> ethAddressRegex_test (string_of (body_walletAddress b)) then
        Some ([], failure 400 [] (lit ''Invalid wallet address format''))
      else
        (case getWalletNFTs client env (string_of (body_walletAddress b)) of
           None \<Rightarrow> None
         | Some (tr, Inr nfts) \<Rightarrow>
             Some (tr, \<lparr>res_status = 200,
                   res_headers = [(lit ''X-RateLimit-Limit'', lit ''100''),
                                  (lit ''X-RateLimit-Remaining'', lit ''99'')],
                   res_body =
                     JObject
                       [(lit ''success'', JBool True),
                        (lit ''wallet'', JString (masked_wallet (string_of (body_walletAddress b)))),
                        (lit ''count'', JNumber (show_nat (length nfts))),
                        (lit ''nfts'', JArray (map nft_json nfts))]\<rparr>)
         | Some (tr, Inl error) \<Rightarrow>
             Some (tr, failure_details 500 [] (lit ''Failed to fetch NFTs'') (message error))))"

definition deprecated_header :: "(jsstring \<times> jsstring) list" where
  "deprecated_header =
     [(lit ''X-Deprecated-API'',
       lit ''This endpoint is deprecated. Please use POST /api/nfts instead.'')]"

definition nfts_deprecated_handler ::
  "sdk \<Rightarrow> env \<Rightarrow> jsstring \<Rightarrow> (sdk_call list \<times> response) option" where
  "nfts_deprecated_handler client env walletAddress =
     (if walletAddress = [] then
        Some ([], failure 400 deprecated_header (lit ''Missing required parameter: walletAddress''))
      else if \<not> ethAddressRegex_test walletAddress then
        Some ([], failure 400 deprecated_header (lit ''Invalid wallet address format''))
      else
        (case getWalletNFTs client env walletAddress of
           None \<Rightarrow> None
         | Some (tr, Inr nfts) \<Rightarrow>
             Some (tr, \<lparr>res_status = 200, res_headers = deprecated_header,
                   res_body =
                     JObject
                       [(lit ''success'', JBool True),
                        (lit ''deprecated'', JBool True),
                        (lit ''message'',
                           JString (lit ''This endpoint is deprecated. Please use POST /api/nfts instead.'')),
                        (lit ''wallet'', JString (masked_wallet walletAddress)),
                        (lit ''count'', JNumber (show_nat (length nfts))),
                        (lit ''nfts'', JArray (map nft_json nfts))]\<rparr>)
         | Some (tr, Inl error) \<Rightarrow>
             Some (tr, failure_details 500 deprecated_header (lit ''Failed to fetch NFTs'')
                    (message error))))"

definition secure_test_private_key_handler :: "sdk \<Rightarrow> body \<Rightarrow> sdk_call list \<times> response" where
  "secure_test_private_key_handler client b =
     (if falsy (body_privateKey b) then
        ([], failure 400 [] (lit ''Missing required field: privateKey''))
      else if length (js_trim (string_of (body_privateKey b))) \<noteq> 64
              \<and> length (js_trim (string_of (body_privateKey b))) \<noteq> 66 then
        ([], failure 400 [] (invalid_length_message (js_trim (string_of (body_privateKey b)))))
      else
        (case call (PrivateKeyToAccount
                      (formattedPrivateKey (js_trim (string_of (body_privateKey b)))))
                (privateKeyToAccount client
                   (formattedPrivateKey (js_trim (string_of (body_privateKey b))))) of
           (tr, Inr account) \<Rightarrow>
             (tr, \<lparr>res_status = 200, res_headers = [],
                   res_body =
                     JObject
                       [(lit ''success'', JBool True),
                        (lit ''message'', JString (lit ''Private key format is valid'')),
                        (lit ''address'', JString (address account))]\<rparr>)
         | (tr, Inl error) \<Rightarrow>
             (tr, failure_details 400 [] (lit ''Invalid private key format'') (message error))))"

text \<open>The error-handling middleware at the end of the chain.\<close>

definition error_middleware :: "response" where
  "error_middleware =
     \<lparr>res_status = 500, res_headers = [],
      res_body =
        JObject
          [(lit ''success'', JBool False),
           (lit ''error'', JString (lit ''Internal Server Error'')),
           (lit ''message'', JString (lit ''An unexpected error occurred''))]\<rparr>"

definition secure_router :: "sdk \<Rightarrow> env \<Rightarrow> request \<Rightarrow> (sdk_call list \<times> response) option" where
  "secure_router client env req =
     (case req_route req of
        Health \<Rightarrow> Some ([], secure_health_handler env)
      | ContractRoute \<Rightarrow> Some (contract_handler client env)
      | MintPrepare \<Rightarrow> Some (prepare_handler client env (req_body req))
      | MintText \<Rightarrow> Some (mint_handler client env (req_body req))
      | MintWithPrivateKey \<Rightarrow> None
      | NftsPost \<Rightarrow> nfts_post_handler client env (req_body req)
      | NftsGet walletAddress \<Rightarrow> nfts_deprecated_handler client env walletAddress
      | TestPrivateKey \<Rightarrow> Some (secure_test_private_key_handler client (req_body req)))"

text \<open>
  The key check is the first middleware of the secured server: a request it answers
  reaches no route; a request it lets through is routed.
\<close>

datatype outcome = Rejected response | Routed "(sdk_call list \<times> response) option"

definition secure_app :: "sdk \<Rightarrow> env \<Rightarrow> request \<Rightarrow> outcome" where
  "secure_app client env req =
     (case validateApiKey env req of
        Respond r \<Rightarrow> Rejected r
      | Next \<Rightarrow> Routed (secure_router client env req))"


section \<open>A concrete environment\<close>

text \<open>
  An environment and an SDK to run the service on: every call succeeds, but the owner of
  the contract cannot be read and the token at index 1 of a wallet cannot be looked
  up. The receipt of a mint has one log, with the topics given.
\<close>

definition example_env :: env where
  "example_env =
     \<lparr>NFT_CONTRACT_ADDRESS = Some (lit ''0x5FbDB2315678afecb367f032d93F642f64180aa3''),
      SERVER_API_KEY = Some (lit ''s3cret''),
      now_iso = lit ''2024-05-01T12:00:00.000Z''\<rparr>"

definition example_client :: "jsstring list \<Rightarrow> sdk" where
  "example_client ts =
     \<lparr>getContract = (\<lambda>a. Inr (Contract a)),
      read_name = (\<lambda>c. Inr (lit ''Cruxz'')),
      read_symbol = (\<lambda>c. Inr (lit ''CRX'')),
      read_owner = (\<lambda>c. Inl (Error (lit ''execution reverted''))),
      read_totalSupply = (\<lambda>c. Inr 3),
      read_balanceOf = (\<lambda>c a. Inr 3),
      read_tokenOfOwnerByIndex =
        (\<lambda>c a i. if i = 1 then Inl (Error (lit ''index out of bounds'')) else Inr (10 + i)),
      read_tokenURI = (\<lambda>c t. Inr (lit ''ipfs://token'')),
      privateKeyToAccount = (\<lambda>k. Inr \<lparr>address = lit ''0xf39Fd6e51aad88F6F4ce6aB8827279cffFb92266''\<rparr>),
      prepareContractCall = (\<lambda>c t u. Inr (Transaction 1)),
      sendTransaction =
        (\<lambda>t a. Inr \<lparr>transactionHash = lit ''0xabc123'',
                       receipt = Some \<lparr>logs = Some [\<lparr>topics = Some ts\<rparr>]\<rparr>\<rparr>)\<rparr>"


definition example_key :: jsstring where
  "example_key = lit ''ac0974bec39a17e36ba4a6b4d238ff944bacb478cbed5efcae784d7bf4f2ff80''"

definition example_prefixed_key :: jsstring where
  "example_prefixed_key = lit ''  0xac0974bec39a17e36ba4a6b4d238ff944bacb478cbed5efcae784d7bf4f2ff80 ''"

definition example_address :: jsstring where
  "example_address = lit ''0x70997970C51812dc3A010C7d01b50e0d17dc79C8''"

definition example_body :: body where
  "example_body =
     \<lparr>body_text = Some (lit ''hello''), body_privateKey = Some example_key,
      body_toAddress = Some example_address, body_walletAddress = Some example_address\<rparr>"

definition example_request :: "route \<Rightarrow> jsstring option \<Rightarrow> request" where
  "example_request r k = \<lparr>req_route = r, x_api_key = k, req_body = example_body\<rparr>"

text \<open>A JSON body with a boolean property \<open>success\<close>.\<close>

definition has_success :: "json \<Rightarrow> bool" where
  "has_success v =
     (case v of
        JObject kvs \<Rightarrow> (case map_of kvs (lit ''success'') of Some (JBool b) \<Rightarrow> True | _ \<Rightarrow> False)
      | _ \<Rightarrow> False)"

text \<open>What the index \<open>i\<close> contributes to the result of an enumeration.\<close>

definition resolved :: "sdk \<Rightarrow> contract \<Rightarrow> jsstring \<Rightarrow> nat \<Rightarrow> walletNft option" where
  "resolved client contract walletAddress i =
     (case snd (resolve_token client contract walletAddress i) of
        Inl err \<Rightarrow> None
      | Inr nft \<Rightarrow> Some nft)"

text \<open>
  A string is well-formed UTF-16 when every high surrogate is followed by a low one and
  no low surrogate stands elsewhere. Only such strings survive UTF-8 unchanged.
\<close>

fun well_formed :: "jsstring \<Rightarrow> bool" where
  "well_formed [] = True"
| "well_formed (c # cs) =
     (if is_high_surrogate c then
        (case cs of [] \<Rightarrow> False | d # ds \<Rightarrow> is_low_surrogate d \<and> well_formed ds)
      else \<not> is_low_surrogate c \<and> well_formed cs)"

section \<open>Properties\<close>

lemmas io_defs = returnE_def throwE_def call_def lift_def bindE_def catchE_def

lemma length_lit: "length (lit s) = length s"
  by (simp add: lit_def)

lemma lit_append: "lit (a @ b) = lit a @ lit b"
  by (simp add: lit_def)

lemma example_key_trim: "js_trim example_key = example_key"
  by (simp add: example_key_def js_trim_def js_whitespace_def lit_def)

lemma example_key_length: "length example_key = 64"
  by (simp add: example_key_def length_lit)

lemma example_address_not_blank: "\<not> is_blank (Some example_address)"
  by (simp add: is_blank_def example_address_def js_trim_def js_whitespace_def lit_def)

lemma example_key_not_blank: "\<not> is_blank (Some example_key)"
  by (simp add: is_blank_def example_key_def js_trim_def js_whitespace_def lit_def)

lemma example_key_format: "formattedPrivateKey example_key = example_key"
  by (simp add: formattedPrivateKey_def startsWith_def example_key_def lit_def)

subsection \<open>The metadata builder\<close>

text \<open>
  C4, amended. For every text and optional description, the metadata built by
  \<open>mintTextNFT\<close> has the name \<open>CRUXZ NFT\<close>; its description is the description provided
  when one is provided and is not the empty string, and \<open>CRUXZ NFT\<close> otherwise (never
  the text); its attributes are exactly \<open>{trait_type: "Text", value: text}\<close> followed by
  \<open>{trait_type: "Created At", value: t}\<close>, with \<open>t\<close> the ISO timestamp the clock gives
  during the call. This is the metadata of every result \<open>mintTextNFT\<close> returns, prepared
  or minted.
\<close>

theorem metadata_builder:
  "metadata env text description =
     JObject
       [(lit ''name'', JString (lit ''CRUXZ NFT'')),
        (lit ''description'',
           JString (case description of
                      None \<Rightarrow> lit ''CRUXZ NFT''
                    | Some d \<Rightarrow> if d = [] then lit ''CRUXZ NFT'' else d)),
        (lit ''attributes'',
           JArray
             [JObject [(lit ''trait_type'', JString (lit ''Text'')), (lit ''value'', JString text)],
              JObject [(lit ''trait_type'', JString (lit ''Created At'')),
                       (lit ''value'', JString (now_iso env))]])]
   \<and> (\<forall>tr r. mintTextNFT client env text performMint privateKey toAddress description = (tr, Inr r)
        \<longrightarrow> (case r of Prepared _ _ md _ \<Rightarrow> md | Minted _ _ _ md \<Rightarrow> md)
              = metadata env text description)"
  by (auto simp: metadata_def or_default_def mintTextNFT_def io_defs
      split: option.splits sum.splits prod.splits if_splits)

text \<open>A mint with the description \<open>A greeting\<close>: the calls made and the result.\<close>

theorem metadata_builder_witness:
  "mintTextNFT (example_client [lit ''0xddf2'', lit ''0x00'', lit ''0x7099'', lit ''0x07''])
      example_env (lit ''hello'') True (Some example_key)
      (Some example_address) (Some (lit ''A greeting''))
     = ([GetContract (NFT_CONTRACT_ADDRESS example_env), PrivateKeyToAccount example_key,
         PrepareContractCall example_address
           (metadataUri (metadata example_env (lit ''hello'') (Some (lit ''A greeting'')))),
         SendTransaction (Transaction 1) \<lparr>address = lit ''0xf39Fd6e51aad88F6F4ce6aB8827279cffFb92266''\<rparr>],
        Inr (Minted (Some (lit ''0x07'')) (lit ''0xabc123'') example_address
               (JObject
                  [(lit ''name'', JString (lit ''CRUXZ NFT'')),
                   (lit ''description'', JString (lit ''A greeting'')),
                   (lit ''attributes'',
                      JArray
                        [JObject [(lit ''trait_type'', JString (lit ''Text'')),
                                  (lit ''value'', JString (lit ''hello''))],
                         JObject [(lit ''trait_type'', JString (lit ''Created At'')),
                                  (lit ''value'', JString (lit ''2024-05-01T12:00:00.000Z''))]])])))"
  using metadata_builder [of example_env "lit ''hello''" "Some (lit ''A greeting'')"
      "example_client [lit ''0xddf2'', lit ''0x00'', lit ''0x7099'', lit ''0x07'']" True
      "Some example_key" "Some example_address"]
  by (simp add: mintTextNFT_def io_defs example_client_def example_env_def string_of_def
      example_key_trim example_key_length example_address_not_blank example_key_not_blank
      example_key_format extract_tokenId_def read_tokenId_def lit_def)

text \<open>
  The claim as written fails for a description that is provided and empty: the
  metadata then carries \<open>CRUXZ NFT\<close>, not the empty description.
\<close>

theorem empty_description_counterexample:
  "get_property (metadata example_env (lit ''hello'') (Some [])) (lit ''description'')
     = Inr (Some (JString (lit ''CRUXZ NFT'')))
   \<and> JString (lit ''CRUXZ NFT'') \<noteq> JString []"
  by (simp add: metadata_def get_property_def or_default_def lit_def)

subsection \<open>The token id of a mint\<close>

text \<open>
  What lines 201 to 210 give: the fourth topic of the first log when it has one; the
  sentinel when the receipt, the logs or the topics are missing; and \<open>undefined\<close> when
  the first log has topics, but fewer than four.
\<close>

lemma extract_tokenId_from_topics:
  "receipt result = Some r \<Longrightarrow> logs r = Some (e # es) \<Longrightarrow> topics e = Some ts \<Longrightarrow> 3 < length ts
     \<Longrightarrow> extract_tokenId result = Some (ts ! 3)"
  by (simp add: extract_tokenId_def read_tokenId_def)

lemma extract_tokenId_unknown:
  "receipt result = None \<or> (\<exists>r. receipt result = Some r \<and> (logs r = None \<or> logs r = Some []
       \<or> (\<exists>e es. logs r = Some (e # es) \<and> topics e = None)))
     \<Longrightarrow> extract_tokenId result = Some (lit ''unknown'')"
  by (auto simp: extract_tokenId_def read_tokenId_def)

lemma extract_tokenId_undefined:
  "receipt result = Some r \<Longrightarrow> logs r = Some (e # es) \<Longrightarrow> topics e = Some ts \<Longrightarrow> length ts \<le> 3
     \<Longrightarrow> extract_tokenId result = None"
  by (simp add: extract_tokenId_def read_tokenId_def)

text \<open>
  C6. The token id of a successful mint is \<open>topics[3]\<close> of the first log of the receipt,
  and is the sentinel \<open>unknown\<close> whenever it cannot be extracted. The code breaks the
  second half: for a receipt whose first log has three topics the mint succeeds with a
  token id that is \<open>undefined\<close>, not \<open>unknown\<close>.
\<close>

theorem short_topics_token_id:
  "mintTextNFT (example_client [lit ''0xddf2'', lit ''0x00'', lit ''0x7099''])
      example_env (lit ''hello'') True (Some example_key) (Some example_address) None
     = ([GetContract (NFT_CONTRACT_ADDRESS example_env), PrivateKeyToAccount example_key,
         PrepareContractCall example_address (metadataUri (metadata example_env (lit ''hello'') None)),
         SendTransaction (Transaction 1) \<lparr>address = lit ''0xf39Fd6e51aad88F6F4ce6aB8827279cffFb92266''\<rparr>],
        Inr (Minted None (lit ''0xabc123'') example_address (metadata example_env (lit ''hello'') None)))
   \<and> (None :: jsstring option) \<noteq> Some (lit ''unknown'')"
  by (simp add: mintTextNFT_def io_defs example_client_def example_env_def string_of_def
      example_key_trim example_key_length example_address_not_blank example_key_not_blank
      example_key_format extract_tokenId_def read_tokenId_def)

lemma show_nat_digit: "n < 10 \<Longrightarrow> show_nat n = [digit_char n]"
  by (simp add: show_nat.simps)

subsection \<open>Minting with a provided key\<close>

lemma mintTextNFT_error_prefix:
  "mintTextNFT client env text performMint privateKey toAddress description = (tr, Inl e)
     \<Longrightarrow> \<exists>m. message e = lit ''Failed to mint NFT: '' @ m"
  by (auto simp: mintTextNFT_def io_defs split: sum.splits prod.splits if_splits)

text \<open>
  C10. When the private key and the recipient address are not blank,
  \<open>mintTextNFTWithPrivateKey\<close> makes the calls and returns the result of \<open>mintTextNFT\<close>
  with \<open>performMint = true\<close>; when that call throws with message \<open>m\<close>, it throws with
  \<open>Failed to mint NFT: \<close> put before \<open>m\<close>, so that the message starts with the prefix
  twice.
\<close>

theorem with_private_key_delegates:
  assumes "\<not> is_blank privateKey" and "\<not> is_blank toAddress"
  shows "mintTextNFTWithPrivateKey client env text privateKey toAddress description =
           (case mintTextNFT client env text True privateKey toAddress description of
              (tr, Inr r) \<Rightarrow> (tr, Inr r)
            | (tr, Inl e) \<Rightarrow> (tr, Inl (Error (lit ''Failed to mint NFT: '' @ message e))))
         \<and> (\<forall>tr e. mintTextNFT client env text True privateKey toAddress description = (tr, Inl e)
              \<longrightarrow> (\<exists>m. mintTextNFTWithPrivateKey client env text privateKey toAddress description
                    = (tr, Inl (Error (lit ''Failed to mint NFT: '' @ lit ''Failed to mint NFT: '' @ m)))))"
proof (intro conjI allI impI)
  show wrap: "mintTextNFTWithPrivateKey client env text privateKey toAddress description =
           (case mintTextNFT client env text True privateKey toAddress description of
              (tr, Inr r) \<Rightarrow> (tr, Inr r)
            | (tr, Inl e) \<Rightarrow> (tr, Inl (Error (lit ''Failed to mint NFT: '' @ message e))))"
    using assms
    by (simp add: mintTextNFTWithPrivateKey_def catchE_def throwE_def split: prod.splits sum.splits)
  fix tr e
  assume thrown: "mintTextNFT client env text True privateKey toAddress description = (tr, Inl e)"
  then obtain m where "message e = lit ''Failed to mint NFT: '' @ m"
    using mintTextNFT_error_prefix by blast
  with wrap thrown
  show "\<exists>m. mintTextNFTWithPrivateKey client env text privateKey toAddress description
          = (tr, Inl (Error (lit ''Failed to mint NFT: '' @ lit ''Failed to mint NFT: '' @ m)))"
    by simp
qed

text \<open>A key of six characters: the error of the delegated call, and the error rethrown.\<close>

theorem with_private_key_delegates_witness:
  "\<not> is_blank (Some (lit ''0x1234'')) \<and> \<not> is_blank (Some example_address)
   \<and> mintTextNFT (example_client []) example_env (lit ''hello'') True (Some (lit ''0x1234''))
        (Some example_address) None
      = ([GetContract (NFT_CONTRACT_ADDRESS example_env)],
         Inl (Error (lit ''Failed to mint NFT: Invalid private key length: 6. Expected 64 or 66 characters.'')))
   \<and> mintTextNFTWithPrivateKey (example_client []) example_env (lit ''hello'') (Some (lit ''0x1234''))
        (Some example_address) None
      = ([GetContract (NFT_CONTRACT_ADDRESS example_env)],
         Inl (Error (lit ''Failed to mint NFT: Failed to mint NFT: Invalid private key length: 6. Expected 64 or 66 characters.'')))"
proof -
  have key: "\<not> is_blank (Some (lit ''0x1234''))"
    by (simp add: is_blank_def js_trim_def js_whitespace_def lit_def)
  have run: "mintTextNFT (example_client []) example_env (lit ''hello'') True (Some (lit ''0x1234''))
        (Some example_address) None
      = ([GetContract (NFT_CONTRACT_ADDRESS example_env)],
         Inl (Error (lit ''Failed to mint NFT: Invalid private key length: 6. Expected 64 or 66 characters.'')))"
    using key example_address_not_blank
    by (simp add: mintTextNFT_def io_defs example_client_def string_of_def invalid_length_message_def
        show_nat_digit digit_char_def js_trim_def js_whitespace_def lit_def)
  show ?thesis
    using with_private_key_delegates [OF key example_address_not_blank,
        of "example_client []" example_env "lit ''hello''" None] key example_address_not_blank run
    by (simp add: lit_def)
qed

subsection \<open>Validation and external calls\<close>




subsection \<open>The private key\<close>

lemma js_trim_Nil: "js_trim [] = []"
  by (simp add: js_trim_def)

text \<open>
  C2, amended. For every private-key string whose trimmed length is neither 64 nor 66,
  the call is rejected and no account is derived and no transaction is prepared or sent.
  \<open>mintTextNFT\<close> with \<open>performMint = true\<close> makes the contract resolution and no other
  call, and throws; after \<open>Failed to mint NFT: \<close> its message is the one of the first
  check that fails: the error of the SDK when the contract resolution throws; the
  missing-key message when the key is blank after trimming; the missing-address message
  when the recipient is missing or blank; and otherwise
  \<open>Invalid private key length: n. Expected 64 or 66 characters.\<close> with \<open>n\<close> the trimmed
  length. The test route of either server makes no call and answers 400, with
  \<open>Missing required field: privateKey\<close> when the key is the empty string and with the
  length message, \<open>n\<close> the trimmed length, otherwise.
\<close>

theorem invalid_length_rejected:
  assumes "length (js_trim k) \<noteq> 64" and "length (js_trim k) \<noteq> 66"
  shows "mintTextNFT client env text True (Some k) toAddress description =
           ([GetContract (NFT_CONTRACT_ADDRESS env)],
            Inl (Error (lit ''Failed to mint NFT: ''
              @ (case getContract client (NFT_CONTRACT_ADDRESS env) of
                   Inl error \<Rightarrow> message error
                 | Inr contract \<Rightarrow>
                     if js_trim k = []
                     then lit ''Private key is required for minting but not provided''
                     else if is_blank toAddress
                     then lit ''Wallet address (toAddress) is required for minting but not provided''
                     else lit ''Invalid private key length: '' @ show_nat (length (js_trim k))
                            @ lit ''. Expected 64 or 66 characters.''))))
         \<and> test_private_key_handler client (b\<lparr>body_privateKey := Some k\<rparr>) =
             ([], failure 400 []
                    (if k = [] then lit ''Missing required field: privateKey''
                     else lit ''Invalid private key length: '' @ show_nat (length (js_trim k))
                            @ lit ''. Expected 64 or 66 characters.''))
         \<and> secure_test_private_key_handler client (b\<lparr>body_privateKey := Some k\<rparr>) =
             ([], failure 400 []
                    (if k = [] then lit ''Missing required field: privateKey''
                     else lit ''Invalid private key length: '' @ show_nat (length (js_trim k))
                            @ lit ''. Expected 64 or 66 characters.''))"
proof (intro conjI)
  have blank: "is_blank (Some k) \<longleftrightarrow> js_trim k = []"
    using js_trim_Nil by (auto simp: is_blank_def)
  show "mintTextNFT client env text True (Some k) toAddress description =
           ([GetContract (NFT_CONTRACT_ADDRESS env)],
            Inl (Error (lit ''Failed to mint NFT: ''
              @ (case getContract client (NFT_CONTRACT_ADDRESS env) of
                   Inl error \<Rightarrow> message error
                 | Inr contract \<Rightarrow>
                     if js_trim k = []
                     then lit ''Private key is required for minting but not provided''
                     else if is_blank toAddress
                     then lit ''Wallet address (toAddress) is required for minting but not provided''
                     else lit ''Invalid private key length: '' @ show_nat (length (js_trim k))
                            @ lit ''. Expected 64 or 66 characters.''))))"
    using assms
    by (simp add: mintTextNFT_def io_defs string_of_def blank invalid_length_message_def
        split: sum.splits)
  show "test_private_key_handler client (b\<lparr>body_privateKey := Some k\<rparr>) =
             ([], failure 400 []
                    (if k = [] then lit ''Missing required field: privateKey''
                     else lit ''Invalid private key length: '' @ show_nat (length (js_trim k))
                            @ lit ''. Expected 64 or 66 characters.''))"
    using assms
    by (simp add: test_private_key_handler_def falsy_def string_of_def invalid_length_message_def)
  show "secure_test_private_key_handler client (b\<lparr>body_privateKey := Some k\<rparr>) =
             ([], failure 400 []
                    (if k = [] then lit ''Missing required field: privateKey''
                     else lit ''Invalid private key length: '' @ show_nat (length (js_trim k))
                            @ lit ''. Expected 64 or 66 characters.''))"
    using assms
    by (simp add: secure_test_private_key_handler_def falsy_def string_of_def
        invalid_length_message_def)
qed

lemma trim_0x1234: "js_trim (lit '' 0x1234 '') = lit ''0x1234''"
  by (simp add: js_trim_def js_whitespace_def lit_def)

text \<open>The key \<open>0x1234\<close> between two spaces: six characters after trimming.\<close>

theorem invalid_length_rejected_witness:
  "length (js_trim (lit '' 0x1234 '')) \<noteq> 64 \<and> length (js_trim (lit '' 0x1234 '')) \<noteq> 66
   \<and> mintTextNFT (example_client []) example_env (lit ''hello'') True (Some (lit '' 0x1234 ''))
        (Some example_address) None
      = ([GetContract (NFT_CONTRACT_ADDRESS example_env)],
         Inl (Error (lit ''Failed to mint NFT: Invalid private key length: 6. Expected 64 or 66 characters.'')))
   \<and> test_private_key_handler (example_client [])
        (example_body\<lparr>body_privateKey := Some (lit '' 0x1234 '')\<rparr>)
      = ([], failure 400 [] (lit ''Invalid private key length: 6. Expected 64 or 66 characters.''))
   \<and> secure_test_private_key_handler (example_client [])
        (example_body\<lparr>body_privateKey := Some (lit '' 0x1234 '')\<rparr>)
      = ([], failure 400 [] (lit ''Invalid private key length: 6. Expected 64 or 66 characters.''))"
proof -
  have len: "length (js_trim (lit '' 0x1234 '')) \<noteq> 64" "length (js_trim (lit '' 0x1234 '')) \<noteq> 66"
    by (simp_all add: trim_0x1234 length_lit)
  have six: "show_nat (length (js_trim (lit '' 0x1234 ''))) = lit ''6''"
    unfolding trim_0x1234 length_lit by (simp add: show_nat_digit digit_char_def lit_def)
  have contract: "getContract (example_client []) (NFT_CONTRACT_ADDRESS example_env)
      = Inr (Contract (NFT_CONTRACT_ADDRESS example_env))"
    by (simp add: example_client_def)
  have nonempty: "js_trim (lit '' 0x1234 '') \<noteq> []" "lit '' 0x1234 '' \<noteq> []"
    by (simp_all add: js_trim_def js_whitespace_def lit_def)
  show ?thesis
    using invalid_length_rejected [OF len, of "example_client []" example_env "lit ''hello''"
        "Some example_address" None example_body]
      len contract nonempty example_address_not_blank
    by (simp add: six) (simp add: lit_def)
qed

text \<open>
  The claim as written fails for a blank key: its trimmed length, 0, is neither 64 nor
  66, and the rejection comes from the presence check, with a message that has no length
  in it.
\<close>

theorem blank_key_message_counterexample:
  "length (js_trim (lit ''   '')) \<noteq> 64 \<and> length (js_trim (lit ''   '')) \<noteq> 66
   \<and> mintTextNFT (example_client []) example_env (lit ''hello'') True (Some (lit ''   ''))
        (Some example_address) None
      = ([GetContract (NFT_CONTRACT_ADDRESS example_env)],
         Inl (Error (lit ''Failed to mint NFT: Private key is required for minting but not provided'')))
   \<and> test_private_key_handler (example_client []) (example_body\<lparr>body_privateKey := Some []\<rparr>)
      = ([], failure 400 [] (lit ''Missing required field: privateKey''))"
  by (simp add: mintTextNFT_def io_defs is_blank_def test_private_key_handler_def falsy_def
      example_client_def example_body_def js_trim_def js_whitespace_def lit_def)

lemma hex_key_has_no_prefix:
  assumes "list_all is_hex_digit s"
  shows "\<not> startsWith s (lit ''0x'')"
proof
  assume "startsWith s (lit ''0x'')"
  then obtain rest where "s = 0x30 # 0x78 # rest"
    by (cases s; cases "tl s") (auto simp: startsWith_def lit_def)
  with assms show False
    by (simp add: is_hex_digit_def)
qed

text \<open>
  C3. For every key string that, trimmed, has 66 characters and starts with \<open>0x\<close>, the
  formatted key is the 64 characters that remain when the first two are removed; for
  every key string that, trimmed, is 64 hexadecimal digits, the formatted key is the
  trimmed string itself. The formatted key is what \<open>mintTextNFT\<close> and the test route hand
  to \<open>privateKeyToAccount\<close>.
\<close>

theorem key_formatting:
  "(length (js_trim k) = 66 \<and> startsWith (js_trim k) (lit ''0x'')
      \<longrightarrow> formattedPrivateKey (js_trim k) = drop 2 (js_trim k)
          \<and> length (formattedPrivateKey (js_trim k)) = 64)
   \<and> (length (js_trim k) = 64 \<and> list_all is_hex_digit (js_trim k)
      \<longrightarrow> formattedPrivateKey (js_trim k) = js_trim k)
   \<and> ((length (js_trim k) = 64 \<or> length (js_trim k) = 66) \<and> \<not> is_blank toAddress
        \<and> getContract client (NFT_CONTRACT_ADDRESS env) = Inr c
      \<longrightarrow> take 2 (fst (mintTextNFT client env text True (Some k) toAddress description))
            = [GetContract (NFT_CONTRACT_ADDRESS env),
               PrivateKeyToAccount (formattedPrivateKey (js_trim k))])
   \<and> ((length (js_trim k) = 64 \<or> length (js_trim k) = 66) \<and> body_privateKey b = Some k
      \<longrightarrow> fst (test_private_key_handler client b)
            = [PrivateKeyToAccount (formattedPrivateKey (js_trim k))]
          \<and> fst (secure_test_private_key_handler client b)
            = [PrivateKeyToAccount (formattedPrivateKey (js_trim k))])"
proof (intro conjI impI)
  assume "length (js_trim k) = 66 \<and> startsWith (js_trim k) (lit ''0x'')"
  then show "formattedPrivateKey (js_trim k) = drop 2 (js_trim k)"
    and "length (formattedPrivateKey (js_trim k)) = 64"
    by (simp_all add: formattedPrivateKey_def substring_def)
next
  assume "length (js_trim k) = 64 \<and> list_all is_hex_digit (js_trim k)"
  then show "formattedPrivateKey (js_trim k) = js_trim k"
    by (simp add: formattedPrivateKey_def hex_key_has_no_prefix)
next
  assume a: "(length (js_trim k) = 64 \<or> length (js_trim k) = 66) \<and> \<not> is_blank toAddress
        \<and> getContract client (NFT_CONTRACT_ADDRESS env) = Inr c"
  then have "js_trim k \<noteq> []" by auto
  then have "k \<noteq> []" by (auto simp: js_trim_def)
  with a \<open>js_trim k \<noteq> []\<close>
  show "take 2 (fst (mintTextNFT client env text True (Some k) toAddress description))
            = [GetContract (NFT_CONTRACT_ADDRESS env),
               PrivateKeyToAccount (formattedPrivateKey (js_trim k))]"
    by (auto simp: mintTextNFT_def io_defs string_of_def is_blank_def
        split: sum.splits prod.splits)
next
  assume a: "(length (js_trim k) = 64 \<or> length (js_trim k) = 66) \<and> body_privateKey b = Some k"
  then have "js_trim k \<noteq> []" by auto
  then have "k \<noteq> []" by (auto simp: js_trim_def)
  with a show "fst (test_private_key_handler client b)
            = [PrivateKeyToAccount (formattedPrivateKey (js_trim k))]"
    by (auto simp: test_private_key_handler_def falsy_def string_of_def call_def
        split: sum.splits)
  from a \<open>k \<noteq> []\<close> show "fst (secure_test_private_key_handler client b)
            = [PrivateKeyToAccount (formattedPrivateKey (js_trim k))]"
    by (auto simp: secure_test_private_key_handler_def falsy_def string_of_def call_def
        split: sum.splits)
qed

lemma example_prefixed_key_trim: "js_trim example_prefixed_key = lit ''0x'' @ example_key"
  by (simp add: example_prefixed_key_def example_key_def js_trim_def js_whitespace_def lit_def)

lemma example_key_hex: "list_all is_hex_digit example_key"
  by (simp add: example_key_def is_hex_digit_def lit_def)

text \<open>A key with the prefix, between spaces, and the same key without prefix.\<close>

theorem key_formatting_witness:
  "length (js_trim example_prefixed_key) = 66 \<and> startsWith (js_trim example_prefixed_key) (lit ''0x'')
   \<and> formattedPrivateKey (js_trim example_prefixed_key) = example_key
   \<and> length example_key = 64 \<and> list_all is_hex_digit (js_trim example_key)
   \<and> formattedPrivateKey (js_trim example_key) = example_key
   \<and> take 2 (fst (mintTextNFT (example_client []) example_env (lit ''hello'') True
         (Some example_prefixed_key) (Some example_address) None))
      = [GetContract (NFT_CONTRACT_ADDRESS example_env), PrivateKeyToAccount example_key]
   \<and> fst (test_private_key_handler (example_client [])
         (example_body\<lparr>body_privateKey := Some example_prefixed_key\<rparr>))
      = [PrivateKeyToAccount example_key]"
proof -
  have len: "length (js_trim example_prefixed_key) = 66"
    by (simp add: example_prefixed_key_trim example_key_length length_lit)
  have pre: "startsWith (js_trim example_prefixed_key) (lit ''0x'')"
    by (simp add: example_prefixed_key_trim startsWith_def length_lit)
  have contract: "getContract (example_client []) (NFT_CONTRACT_ADDRESS example_env)
      = Inr (Contract (NFT_CONTRACT_ADDRESS example_env))"
    by (simp add: example_client_def)
  have dropped: "drop 2 (js_trim example_prefixed_key) = example_key"
    by (simp add: example_prefixed_key_trim length_lit)
  show ?thesis
    using key_formatting [of example_prefixed_key "Some example_address" "example_client []"
        example_env "Contract (NFT_CONTRACT_ADDRESS example_env)" "lit ''hello''" None
        "example_body\<lparr>body_privateKey := Some example_prefixed_key\<rparr>"]
      key_formatting [of example_key]
      len pre contract dropped example_address_not_blank example_key_hex example_key_length
    by (simp add: example_key_trim)
qed

subsection \<open>The API key\<close>

text \<open>
  C8, amended. For every request to the secured server: if the \<open>x-api-key\<close> header is
  absent or empty the response is 401 and no route handler runs; if it is present, not
  empty and not equal to the configured secret the response is 403 and no route handler
  runs; if it is not empty and equal to the secret the request goes on to routing.
\<close>

theorem api_key_gate:
  "(x_api_key req = None \<or> x_api_key req = Some []
      \<longrightarrow> (\<exists>r. secure_app client env req = Rejected r \<and> res_status r = 401
               \<and> map_of (case res_body r of JObject kvs \<Rightarrow> kvs | _ \<Rightarrow> []) (lit ''success'')
                   = Some (JBool False)))
   \<and> (\<forall>k. x_api_key req = Some k \<and> k \<noteq> [] \<and> SERVER_API_KEY env \<noteq> Some k
      \<longrightarrow> (\<exists>r. secure_app client env req = Rejected r \<and> res_status r = 403
               \<and> map_of (case res_body r of JObject kvs \<Rightarrow> kvs | _ \<Rightarrow> []) (lit ''success'')
                   = Some (JBool False)))
   \<and> (\<forall>k. x_api_key req = Some k \<and> k \<noteq> [] \<and> SERVER_API_KEY env = Some k
      \<longrightarrow> secure_app client env req = Routed (secure_router client env req))"
  by (auto simp: secure_app_def validateApiKey_def falsy_def)

text \<open>No key, a wrong key and the right key, on the health route.\<close>

theorem api_key_gate_witness:
  "(case secure_app (example_client []) example_env (example_request Health None) of
      Rejected r \<Rightarrow> res_status r = 401 | Routed _ \<Rightarrow> False)
   \<and> (case secure_app (example_client []) example_env (example_request Health (Some (lit ''guess''))) of
      Rejected r \<Rightarrow> res_status r = 403 | Routed _ \<Rightarrow> False)
   \<and> secure_app (example_client []) example_env (example_request Health (Some (lit ''s3cret'')))
      = Routed (Some ([], secure_health_handler example_env))"
proof -
  have a: "x_api_key (example_request Health None) = None"
    by (simp add: example_request_def)
  have b: "x_api_key (example_request Health (Some (lit ''guess''))) = Some (lit ''guess'')
      \<and> lit ''guess'' \<noteq> [] \<and> SERVER_API_KEY example_env \<noteq> Some (lit ''guess'')"
    by (simp add: example_request_def example_env_def lit_def)
  have c: "x_api_key (example_request Health (Some (lit ''s3cret''))) = Some (lit ''s3cret'')
      \<and> lit ''s3cret'' \<noteq> [] \<and> SERVER_API_KEY example_env = Some (lit ''s3cret'')"
    by (simp add: example_request_def example_env_def lit_def)
  have d: "secure_router (example_client []) example_env (example_request Health (Some (lit ''s3cret'')))
      = Some ([], secure_health_handler example_env)"
    by (simp add: secure_router_def example_request_def)
  from api_key_gate [of "example_request Health None" "example_client []" example_env] a
  have "\<exists>r. secure_app (example_client []) example_env (example_request Health None) = Rejected r
      \<and> res_status r = 401"
    by blast
  moreover
  from api_key_gate [of "example_request Health (Some (lit ''guess''))" "example_client []" example_env] b
  have "\<exists>r. secure_app (example_client []) example_env (example_request Health (Some (lit ''guess'')))
      = Rejected r \<and> res_status r = 403"
    by blast
  moreover
  from api_key_gate [of "example_request Health (Some (lit ''s3cret''))" "example_client []" example_env] c d
  have "secure_app (example_client []) example_env (example_request Health (Some (lit ''s3cret'')))
      = Routed (Some ([], secure_health_handler example_env))"
    by simp
  ultimately show ?thesis
    by auto
qed

text \<open>
  The claim as written fails for a header that is present and empty: it differs from
  the secret, and the response is 401, not 403.
\<close>

theorem empty_api_key_counterexample:
  "x_api_key (example_request ContractRoute (Some [])) = Some []
   \<and> SERVER_API_KEY example_env = Some (lit ''s3cret'') \<and> lit ''s3cret'' \<noteq> []
   \<and> secure_app (example_client []) example_env (example_request ContractRoute (Some []))
       = Rejected
           \<lparr>res_status = 401, res_headers = [],
            res_body =
              JObject
                [(lit ''success'', JBool False),
                 (lit ''error'', JString (lit ''API key is required'')),
                 (lit ''message'',
                    JString (lit ''Please provide an API key in the '' @ [0x27] @ lit ''x-api-key''
                      @ [0x27] @ lit '' header''))]\<rparr>"
  by (simp add: secure_app_def validateApiKey_def falsy_def example_request_def example_env_def)
    (simp add: lit_def)

subsection \<open>The \<open>success\<close> field\<close>

lemma has_success_failure [simp]: "has_success (res_body (failure code hs err))"
  by (simp add: has_success_def failure_def)

lemma has_success_failure_details [simp]:
  "has_success (res_body (failure_details code hs err details))"
  by (simp add: has_success_def failure_details_def)

lemma has_success_sent_object [simp]:
  "has_success (sent_object ((lit ''success'', Some (JBool b)) # rest))"
  by (simp add: has_success_def sent_object_def)

lemma has_success_JObject [simp]:
  "has_success (JObject ((lit ''success'', JBool b) # rest))"
  by (simp add: has_success_def)

lemma contract_handler_success: "has_success (res_body (snd (contract_handler client env)))"
  by (simp add: contract_handler_def split: prod.splits sum.splits)

lemma prepare_handler_success: "has_success (res_body (snd (prepare_handler client env b)))"
  by (simp add: prepare_handler_def split: prod.splits sum.splits mint_result.splits)

lemma mint_handler_success: "has_success (res_body (snd (mint_handler client env b)))"
  by (simp add: mint_handler_def minted_body_def split: prod.splits sum.splits mint_result.splits)

lemma mint_with_private_key_handler_success:
  "has_success (res_body (snd (mint_with_private_key_handler client env b)))"
  by (simp add: mint_with_private_key_handler_def minted_body_def
      split: prod.splits sum.splits mint_result.splits)

lemma nfts_handler_success:
  "nfts_handler client env w = Some p \<Longrightarrow> has_success (res_body (snd p))"
  by (auto simp: nfts_handler_def split: if_splits option.splits prod.splits sum.splits)

lemma nfts_post_handler_success:
  "nfts_post_handler client env b = Some p \<Longrightarrow> has_success (res_body (snd p))"
  by (auto simp: nfts_post_handler_def split: if_splits option.splits prod.splits sum.splits)

lemma nfts_deprecated_handler_success:
  "nfts_deprecated_handler client env w = Some p \<Longrightarrow> has_success (res_body (snd p))"
  by (auto simp: nfts_deprecated_handler_def split: if_splits option.splits prod.splits sum.splits)

lemma test_private_key_handler_success:
  "has_success (res_body (snd (test_private_key_handler client b)))"
  by (simp add: test_private_key_handler_def split: prod.splits sum.splits)

lemma secure_test_private_key_handler_success:
  "has_success (res_body (snd (secure_test_private_key_handler client b)))"
  by (simp add: secure_test_private_key_handler_def split: prod.splits sum.splits)

lemma health_no_success:
  "\<not> has_success (res_body health_handler)" "\<not> has_success (res_body (secure_health_handler env))"
  by (simp_all add: has_success_def health_handler_def secure_health_handler_def lit_def)

lemmas handler_success =
  contract_handler_success prepare_handler_success mint_handler_success
  mint_with_private_key_handler_success test_private_key_handler_success
  secure_test_private_key_handler_success

lemma index_app_success:
  "index_app client env req = Some p \<Longrightarrow> has_success (res_body (snd p)) = (req_route req \<noteq> Health)"
  by (cases "req_route req")
    (auto simp: index_app_def health_no_success handler_success dest: nfts_handler_success)

lemma secure_router_success:
  "secure_router client env req = Some p
     \<Longrightarrow> has_success (res_body (snd p)) = (req_route req \<noteq> Health)"
  by (cases "req_route req")
    (auto simp: secure_router_def health_no_success handler_success
      dest: nfts_post_handler_success nfts_deprecated_handler_success)

lemma validateApiKey_success: "validateApiKey env req = Respond r \<Longrightarrow> has_success (res_body r)"
  by (auto simp: validateApiKey_def split: if_splits)

text \<open>
  C9, amended. Every JSON body sent by the two servers, on success and on failure, has
  a boolean property \<open>success\<close>, except the body of \<open>GET /health\<close>, which has none: the
  bodies of all the other routes, the 401 and 403 of the key check (on every route,
  \<open>/health\<close> too) and the body of the error-handling middleware.
\<close>

theorem success_field:
  "(\<forall>tr res. index_app client env req = Some (tr, res)
      \<longrightarrow> has_success (res_body res) = (req_route req \<noteq> Health))
   \<and> (\<forall>r. secure_app client env req = Rejected r \<longrightarrow> has_success (res_body r))
   \<and> (\<forall>tr res. secure_app client env req = Routed (Some (tr, res))
      \<longrightarrow> has_success (res_body res) = (req_route req \<noteq> Health))
   \<and> has_success (res_body error_middleware)"
proof (intro conjI allI impI)
  fix tr res
  assume "index_app client env req = Some (tr, res)"
  from index_app_success [OF this]
  show "has_success (res_body res) = (req_route req \<noteq> Health)"
    by simp
next
  fix r
  assume "secure_app client env req = Rejected r"
  then show "has_success (res_body r)"
    by (auto simp: secure_app_def split: verdict.splits dest: validateApiKey_success)
next
  fix tr res
  assume "secure_app client env req = Routed (Some (tr, res))"
  then have "secure_router client env req = Some (tr, res)"
    by (auto simp: secure_app_def split: verdict.splits)
  from secure_router_success [OF this]
  show "has_success (res_body res) = (req_route req \<noteq> Health)"
    by simp
next
  show "has_success (res_body error_middleware)"
    by (simp add: error_middleware_def)
qed

text \<open>The contract route on the first server, and without a key on the secured one.\<close>

theorem success_field_witness:
  "index_app (example_client []) example_env (example_request ContractRoute None)
     = Some ([GetContract (NFT_CONTRACT_ADDRESS example_env), ReadName, ReadSymbol, ReadOwner,
              ReadTotalSupply],
             \<lparr>res_status = 200, res_headers = [],
              res_body = JObject
                [(lit ''success'', JBool True),
                 (lit ''contract'', JObject
                    [(lit ''name'', JString (lit ''Cruxz'')), (lit ''symbol'', JString (lit ''CRX'')),
                     (lit ''owner'', JString (lit ''unknown'')),
                     (lit ''totalSupply'', JString (lit ''3'')),
                     (lit ''address'', JString (lit ''0x5FbDB2315678afecb367f032d93F642f64180aa3''))])]\<rparr>)
   \<and> has_success (JObject
                [(lit ''success'', JBool True),
                 (lit ''contract'', JObject
                    [(lit ''name'', JString (lit ''Cruxz'')), (lit ''symbol'', JString (lit ''CRX'')),
                     (lit ''owner'', JString (lit ''unknown'')),
                     (lit ''totalSupply'', JString (lit ''3'')),
                     (lit ''address'', JString (lit ''0x5FbDB2315678afecb367f032d93F642f64180aa3''))])])
   \<and> secure_app (example_client []) example_env (example_request ContractRoute None)
     = Rejected \<lparr>res_status = 401, res_headers = [],
           res_body =
             JObject
               [(lit ''success'', JBool False),
                (lit ''error'', JString (lit ''API key is required'')),
                (lit ''message'',
                   JString (lit ''Please provide an API key in the '' @ [0x27] @ lit ''x-api-key''
                     @ [0x27] @ lit '' header''))]\<rparr>
   \<and> has_success (JObject
               [(lit ''success'', JBool False),
                (lit ''error'', JString (lit ''API key is required'')),
                (lit ''message'',
                   JString (lit ''Please provide an API key in the '' @ [0x27] @ lit ''x-api-key''
                     @ [0x27] @ lit '' header''))])"
proof -
  have run: "index_app (example_client []) example_env (example_request ContractRoute None)
     = Some ([GetContract (NFT_CONTRACT_ADDRESS example_env), ReadName, ReadSymbol, ReadOwner,
              ReadTotalSupply],
             \<lparr>res_status = 200, res_headers = [],
              res_body = JObject
                [(lit ''success'', JBool True),
                 (lit ''contract'', JObject
                    [(lit ''name'', JString (lit ''Cruxz'')), (lit ''symbol'', JString (lit ''CRX'')),
                     (lit ''owner'', JString (lit ''unknown'')),
                     (lit ''totalSupply'', JString (lit ''3'')),
                     (lit ''address'', JString (lit ''0x5FbDB2315678afecb367f032d93F642f64180aa3''))])]\<rparr>)"
    by (simp add: index_app_def example_request_def contract_handler_def getContractInfo_def
        io_defs example_client_def example_env_def contract_json_def sent_object_def
        show_nat_digit digit_char_def lit_def)
  have rej: "secure_app (example_client []) example_env (example_request ContractRoute None)
     = Rejected \<lparr>res_status = 401, res_headers = [],
           res_body =
             JObject
               [(lit ''success'', JBool False),
                (lit ''error'', JString (lit ''API key is required'')),
                (lit ''message'',
                   JString (lit ''Please provide an API key in the '' @ [0x27] @ lit ''x-api-key''
                     @ [0x27] @ lit '' header''))]\<rparr>"
    by (simp add: secure_app_def validateApiKey_def falsy_def example_request_def)
  show ?thesis
    using success_field [of "example_client []" example_env "example_request ContractRoute None"]
      run rej
    by (simp add: example_request_def)
qed

text \<open>The claim as written fails on \<open>GET /health\<close>, whose body is \<open>{status: "healthy"}\<close>.\<close>

theorem health_body_counterexample:
  "index_app (example_client []) example_env (example_request Health None)
     = Some ([], \<lparr>res_status = 200, res_headers = [],
                  res_body = JObject [(lit ''status'', JString (lit ''healthy''))]\<rparr>)
   \<and> \<not> has_success (JObject [(lit ''status'', JString (lit ''healthy''))])"
  by (simp add: index_app_def example_request_def health_handler_def has_success_def lit_def)

subsection \<open>Enumerating a wallet\<close>

text \<open>Rounding to a double: exact below \<open>2^53\<close>, and what it does just above.\<close>

lemma double_exponent_small: "n < 2 ^ 53 \<Longrightarrow> double_exponent n = 0"
  by (subst double_exponent.simps) simp

lemma round_double_small: "n < 2 ^ 53 \<Longrightarrow> round_double n = n"
  by (simp add: round_double_def double_exponent_small)

lemma round_double_limit:
  "round_double 9007199254740992 = 2 ^ 53" "round_double 9007199254740993 = 2 ^ 53"
  by (simp_all add: round_double_def double_exponent.simps)

text \<open>The counter: \<open>i++\<close> adds one below \<open>2^53\<close> and changes nothing at \<open>2^53\<close>.\<close>

lemma increment_counter:
  assumes "i \<le> 2 ^ 53"
  shows "round_double (Suc i) = (if i < 2 ^ 53 then Suc i else 2 ^ 53)"
proof (cases "Suc i < 2 ^ 53")
  case True
  then show ?thesis by (simp add: round_double_small)
next
  case False
  with assms have "Suc i = 9007199254740992 \<or> Suc i = 9007199254740993" by auto
  then show ?thesis
  proof
    assume eq: "Suc i = 9007199254740992"
    then have "i < 2 ^ 53" by simp
    with eq round_double_limit(1) show ?thesis by simp
  next
    assume eq: "Suc i = 9007199254740993"
    then have "\<not> i < 2 ^ 53" by simp
    with eq round_double_limit(2) show ?thesis by simp
  qed
qed


lemma double_exponent_large:
  "2 ^ 53 \<le> n \<Longrightarrow> 0 < double_exponent n \<and> 2 ^ 52 \<le> n div 2 ^ double_exponent n"
proof (induction n rule: double_exponent.induct)
  case (1 n)
  then have n: "\<not> n < 2 ^ 53" by simp
  then have unfold: "double_exponent n = Suc (double_exponent (n div 2))"
    by (subst double_exponent.simps) simp
  show ?case
  proof (cases "n div 2 < 2 ^ 53")
    case True
    then have "double_exponent (n div 2) = 0" by (rule double_exponent_small)
    with unfold "1.prems" show ?thesis by simp
  next
    case False
    then have "2 ^ 53 \<le> n div 2" by simp
    from "1.IH" [OF n this] unfold show ?thesis by (simp add: div_mult2_eq)
  qed
qed

lemma round_double_large:
  assumes "2 ^ 53 + 2 \<le> n"
  shows "2 ^ 53 < round_double n"
proof -
  define e where "e = double_exponent n"
  define q where "q = n div 2 ^ e"
  from assms have "2 ^ 53 \<le> n" by simp
  from double_exponent_large [OF this] have e: "0 < e" and q: "2 ^ 52 \<le> q"
    by (simp_all add: e_def q_def)
  have "2 ^ 53 < q * 2 ^ e"
  proof (cases "e = 1")
    case True
    with assms have "2 ^ 52 + 1 \<le> q" by (simp add: q_def)
    then have "(2 ^ 52 + 1) * 2 \<le> q * 2" by (rule mult_le_mono1)
    with True show ?thesis by simp
  next
    case False
    with e have "2 \<le> e" by simp
    then have "(2 :: nat) ^ 2 \<le> 2 ^ e" by (intro power_increasing) simp_all
    with q have "2 ^ 52 * (2 :: nat) ^ 2 \<le> q * 2 ^ e" by (rule mult_le_mono)
    then show ?thesis by simp
  qed
  moreover have "q * 2 ^ e \<le> round_double n"
    by (simp add: round_double_def Let_def e_def q_def)
  ultimately show ?thesis by simp
qed

lemma Number_large: "2 ^ 53 + 2 \<le> n \<Longrightarrow> below (2 ^ 53) (Number n)"
  using round_double_large [of n] by (simp add: Number_def)


text \<open>
  The loop above \<open>2^53\<close>: once the bound is larger, the counter cannot pass \<open>2^53\<close> and
  the loop yields nothing.
\<close>

lemma wallet_loop_stuck:
  assumes "wallet_loop client contract w bn i acc = Some y"
  shows "\<not> (i \<le> 2 ^ 53 \<and> below (2 ^ 53) bn)"
proof (rule wallet_loop.raw_induct
    [where P = "\<lambda>client contract w bn i acc y. \<not> (i \<le> 2 ^ 53 \<and> below (2 ^ 53) bn)", OF _ assms])
  fix loop :: "sdk \<Rightarrow> contract \<Rightarrow> jsstring \<Rightarrow> number \<Rightarrow> nat \<Rightarrow> sdk_call list \<times> walletNft list
      \<Rightarrow> (sdk_call list \<times> walletNft list) option"
    and client contract w bn i acc y
  assume IH: "\<And>client contract w bn i acc y.
      loop client contract w bn i acc = Some y \<Longrightarrow> \<not> (i \<le> 2 ^ 53 \<and> below (2 ^ 53) bn)"
  assume body: "(if below i bn then
        (case resolve_token client contract w i of
           (tr', Inl err) \<Rightarrow>
             loop client contract w bn (round_double (i + 1)) (fst acc @ tr', snd acc)
         | (tr', Inr nft) \<Rightarrow>
             loop client contract w bn (round_double (i + 1)) (fst acc @ tr', snd acc @ [nft]))
      else Some acc) = Some y"
  show "\<not> (i \<le> 2 ^ 53 \<and> below (2 ^ 53) bn)"
  proof
    assume stuck: "i \<le> 2 ^ 53 \<and> below (2 ^ 53) bn"
    then have go: "below i bn" by (cases bn) auto
    from stuck have bound: "round_double (i + 1) \<le> 2 ^ 53"
      by (simp add: increment_counter)
    obtain tr' r where step: "resolve_token client contract w i = (tr', r)"
      by (cases "resolve_token client contract w i")
    from body go step obtain acc' where
      "loop client contract w bn (round_double (i + 1)) acc' = Some y"
      by (cases r) auto
    from IH [OF this] bound stuck show False by simp
  qed
qed

lemma wallet_loop_never_ends:
  "below (2 ^ 53) bn \<Longrightarrow> wallet_loop client contract w bn 0 acc = None"
  using wallet_loop_stuck [of client contract w bn 0 acc]
  by (cases "wallet_loop client contract w bn 0 acc") auto

text \<open>
  A balance of \<open>2^53 + 2\<close> or more: the call makes the calls of the indices up to \<open>2^53\<close>
  and then those of \<open>2^53\<close> again and again; it never returns and never throws.
\<close>

lemma getWalletNFTs_never_returns:
  assumes "getContract client (NFT_CONTRACT_ADDRESS env) = Inr contract"
    and "read_balanceOf client contract w = Inr n"
    and "2 ^ 53 + 2 \<le> n"
  shows "getWalletNFTs client env w = None"
  using assms wallet_loop_never_ends [OF Number_large [OF assms(3)], of client contract w "([], [])"]
  by (simp add: getWalletNFTs_def bindP_def catchP_def call_def)



text \<open>An index is resolved when neither lookup, nor the decoding, nor the entry throws.\<close>

lemma resolved_cases:
  "resolved client contract w i =
     (case read_tokenOfOwnerByIndex client contract w i of
        Inl err \<Rightarrow> None
      | Inr tokenId \<Rightarrow>
          (case read_tokenURI client contract tokenId of
             Inl err \<Rightarrow> None
           | Inr tokenUri \<Rightarrow>
               (case decode_metadata tokenUri tokenId of
                  Inl err \<Rightarrow> None
                | Inr md \<Rightarrow>
                    (case wallet_entry tokenId md of Inl err \<Rightarrow> None | Inr nft \<Rightarrow> Some nft))))"
  by (simp add: resolved_def resolve_token_def io_defs split: sum.splits)





subsection \<open>The token URI round trip\<close>

text \<open>Bytes and code units as numbers.\<close>

lemma unat_jschar_of_nat: "m < 65536 \<Longrightarrow> unat (of_nat m :: jschar) = m"
  by (simp add: unat_of_nat)

lemma unat_byte_of_nat: "m < 256 \<Longrightarrow> unat (of_nat m :: byte) = m"
  by (simp add: unat_of_nat)

lemma unat_byte_less: "unat (b :: byte) < 256"
  using unsigned_less [of b, where ?'a = nat] by simp

lemma unat_jschar_less: "unat (c :: jschar) < 65536"
  using unsigned_less [of c, where ?'a = nat] by simp

lemma byte_of_nat_unat: "of_nat (unat (b :: byte)) = b"
  by (simp add: word_unat_eq_iff unat_of_nat unat_byte_less)

lemma jschar_of_nat_unat: "of_nat (unat (c :: jschar)) = c"
  by (simp add: word_unat_eq_iff unat_of_nat unat_jschar_less)

text \<open>Base64: decoding undoes encoding.\<close>

lemma unat_b64_char:
  "n < 64 \<Longrightarrow> unat (b64_char n) =
     (if n < 26 then 65 + n else if n < 52 then 71 + n else if n < 62 then n - 4
      else if n = 62 then 43 else 47)"
  unfolding b64_char_def
  by (simp add: unat_jschar_of_nat del: of_nat_add of_nat_diff)

lemma unat_low_byte: "unat (low_byte c) = unat c mod 256"
  by (simp add: low_byte_def unsigned_ucast_eq take_bit_eq_mod)

lemma unat_low_b64_char:
  "n < 64 \<Longrightarrow> unat (low_byte (b64_char n)) =
     (if n < 26 then 65 + n else if n < 52 then 71 + n else if n < 62 then n - 4
      else if n = 62 then 43 else 47)"
  by (simp add: unat_low_byte unat_b64_char)

lemma b64_value_unat:
  "b64_value c =
     (if 65 \<le> unat (low_byte c) \<and> unat (low_byte c) \<le> 90 then Some (unat (low_byte c) - 65)
      else if 97 \<le> unat (low_byte c) \<and> unat (low_byte c) \<le> 122
        then Some (unat (low_byte c) - 71)
      else if 48 \<le> unat (low_byte c) \<and> unat (low_byte c) \<le> 57 then Some (unat (low_byte c) + 4)
      else if unat (low_byte c) = 43 \<or> unat (low_byte c) = 45 then Some 62
      else if unat (low_byte c) = 47 \<or> unat (low_byte c) = 95 then Some 63
      else None)"
  by (simp add: b64_value_def word_le_nat_alt word_unat_eq_iff)

lemma b64_value_char: "n < 64 \<Longrightarrow> b64_value (b64_char n) = Some n"
  by (auto simp: b64_value_unat unat_low_b64_char)

lemma b64_char_not_pad: "n < 64 \<Longrightarrow> low_byte (b64_char n) \<noteq> 0x3D"
  by (auto simp: word_unat_eq_iff unat_low_b64_char)

lemma low_byte_pad: "low_byte 0x3D = 0x3D"
  by (simp add: word_unat_eq_iff unat_low_byte)

lemma b64_sextets_Cons:
  "n < 64 \<Longrightarrow> b64_sextets (b64_char n # s) = n # b64_sextets s"
  by (simp add: b64_sextets_def b64_char_not_pad b64_value_char List.map_filter_simps)

lemma b64_sextets_pad: "b64_sextets (0x3D # s) = []"
  by (simp add: b64_sextets_def low_byte_pad List.map_filter_simps)

lemma b64_sextets_Nil: "b64_sextets [] = []"
  by (simp add: b64_sextets_def List.map_filter_simps)

lemma div_mod_join:
  fixes m k :: nat
  shows "k < 16 \<Longrightarrow> (m * 16 + k) div 16 = m" "k < 16 \<Longrightarrow> (m * 16 + k) mod 16 = k"
    "k < 4 \<Longrightarrow> (m * 4 + k) div 4 = m" "k < 4 \<Longrightarrow> (m * 4 + k) mod 4 = k"
  by simp_all

lemma sextet_arith:
  fixes x y z :: nat
  assumes "y < 256" "z < 256"
  shows "x div 4 * 4 + (x mod 4 * 16 + y div 16) div 16 = x"
    and "(x mod 4 * 16 + y div 16) mod 16 * 16 + (y mod 16 * 4 + z div 64) div 4 = y"
    and "(x mod 16 * 4 + y div 64) mod 4 * 64 + y mod 64 = y"
    and "x div 4 * 4 + (x mod 4 * 16) div 16 = x"
    and "(x mod 4 * 16 + y div 16) mod 16 * 16 + (y mod 16 * 4) div 4 = y"
proof -
  have y16: "y div 16 < 16" and y64: "y div 64 < 4" and z64: "z div 64 < 4"
    using assms by auto
  show "x div 4 * 4 + (x mod 4 * 16 + y div 16) div 16 = x"
    using y16 by (simp add: div_mod_join)
  show "(x mod 4 * 16 + y div 16) mod 16 * 16 + (y mod 16 * 4 + z div 64) div 4 = y"
    using y16 z64 by (simp add: div_mod_join)
  show "(x mod 16 * 4 + y div 64) mod 4 * 64 + y mod 64 = y"
    using y64 by (simp add: div_mod_join)
  show "x div 4 * 4 + (x mod 4 * 16) div 16 = x"
    by simp
  show "(x mod 4 * 16 + y div 16) mod 16 * 16 + (y mod 16 * 4) div 4 = y"
    using y16 by (simp add: div_mod_join)
qed

lemma byte_from_sextets:
  fixes a b c :: byte
  shows "of_nat (unat a div 4 * 4 + (unat a mod 4 * 16 + unat b div 16) div 16) = a"
    and "of_nat ((unat a mod 4 * 16 + unat b div 16) mod 16 * 16
           + (unat b mod 16 * 4 + unat c div 64) div 4) = b"
    and "of_nat ((unat a mod 16 * 4 + unat b div 64) mod 4 * 64 + unat b mod 64) = b"
    and "of_nat (unat a div 4 * 4 + (unat a mod 4 * 16) div 16) = a"
    and "of_nat ((unat a mod 4 * 16 + unat b div 16) mod 16 * 16 + (unat b mod 16 * 4) div 4) = b"
  by (simp_all only: sextet_arith [OF unat_byte_less unat_byte_less] byte_of_nat_unat)

lemma sextet_bounds:
  fixes a b :: byte
  shows "unat a div 4 < 64" "unat a mod 4 * 16 + unat b div 16 < 64"
    "unat a mod 16 * 4 + unat b div 64 < 64" "unat a mod 64 < 64"
    "unat a mod 4 * 16 < 64" "unat a mod 16 * 4 < 64"
  using unat_byte_less [of a] unat_byte_less [of b] by auto

lemma base64_round_trip: "base64_decode (base64_encode bs) = bs"
proof (induction bs rule: base64_encode.induct)
  case 1
  show ?case by (simp add: base64_decode_def b64_sextets_Nil)
next
  case (2 a)
  show ?case
    by (simp only: base64_encode.simps base64_decode_def b64_sextets_Cons sextet_bounds
        b64_sextets_pad b64_bytes.simps byte_from_sextets)
next
  case (3 a b)
  show ?case
    by (simp only: base64_encode.simps base64_decode_def b64_sextets_Cons sextet_bounds
        b64_sextets_pad b64_bytes.simps byte_from_sextets)
next
  case (4 a b c rest)
  have "b64_sextets (base64_encode (a # b # c # rest)) =
          [unat a div 4, unat a mod 4 * 16 + unat b div 16, unat b mod 16 * 4 + unat c div 64,
           unat c mod 64] @ b64_sextets (base64_encode rest)"
    by (simp only: base64_encode.simps append.simps b64_sextets_Cons sextet_bounds)
  then show ?case
    using "4.IH"
    by (simp only: base64_decode_def append.simps b64_bytes.simps byte_from_sextets)
qed

text \<open>UTF-8: decoding undoes encoding on well-formed strings.\<close>

lemma div_4096: "(u :: nat) div 4096 = u div 64 div 64"
  by (simp add: div_mult2_eq [symmetric])

lemma div_262144: "(u :: nat) div 262144 = u div 64 div 64 div 64"
  by (simp add: div_mult2_eq [symmetric])

lemma utf8_arith_2:
  fixes u :: nat
  assumes "128 \<le> u" "u < 2048"
  shows "2 \<le> u div 64" "u div 64 < 32" "u div 64 * 64 + u mod 64 = u"
  using assms by auto

lemma utf8_arith_3:
  fixes u :: nat
  assumes "2048 \<le> u" "u < 65536"
  shows "u div 4096 < 16"
    and "u div 4096 * 4096 + u div 64 mod 64 * 64 + u mod 64 = u"
    and "u div 4096 = 0 \<Longrightarrow> 32 \<le> u div 64 mod 64"
    and "u div 4096 = 13 \<Longrightarrow> u < 55296 \<Longrightarrow> u div 64 mod 64 < 32"
proof -
  define q where "q = u div 64"
  have q: "32 \<le> q" "q < 1024" using assms by (auto simp: q_def)
  have u: "u = q * 64 + u mod 64" by (simp add: q_def)
  have qq: "q = q div 64 * 64 + q mod 64" by simp
  show "u div 4096 < 16" using q by (simp add: div_4096 q_def [symmetric])
  show "u div 4096 * 4096 + u div 64 mod 64 * 64 + u mod 64 = u"
    unfolding div_4096 q_def [symmetric] using u qq by linarith
  show "32 \<le> u div 64 mod 64" if "u div 4096 = 0"
    using that q unfolding div_4096 q_def [symmetric] by auto
  show "u div 64 mod 64 < 32" if "u div 4096 = 13" "u < 55296"
  proof -
    have "q div 64 = 13" using that(1) by (simp add: div_4096 q_def)
    moreover have "q < 864" using that(2) by (auto simp: q_def)
    ultimately have "q mod 64 < 32" using qq by linarith
    then show ?thesis by (simp add: q_def)
  qed
qed

lemma utf8_arith_4:
  fixes u :: nat
  assumes "65536 \<le> u" "u < 1114112"
  shows "u div 262144 < 5"
    and "u div 262144 * 262144 + u div 4096 mod 64 * 4096 + u div 64 mod 64 * 64 + u mod 64 = u"
    and "u div 262144 = 0 \<Longrightarrow> 16 \<le> u div 4096 mod 64"
    and "u div 262144 = 4 \<Longrightarrow> u div 4096 mod 64 < 16"
proof -
  define q where "q = u div 64"
  define p where "p = q div 64"
  have p: "16 \<le> p" "p < 272" using assms by (auto simp: p_def q_def)
  have u: "u = q * 64 + u mod 64" by (simp add: q_def)
  have qq: "q = p * 64 + q mod 64" by (simp add: p_def)
  have pp: "p = p div 64 * 64 + p mod 64" by simp
  show "u div 262144 < 5" using p by (simp add: div_262144 q_def [symmetric] p_def [symmetric])
  show "u div 262144 * 262144 + u div 4096 mod 64 * 4096 + u div 64 mod 64 * 64 + u mod 64 = u"
    unfolding div_262144 div_4096 q_def [symmetric] p_def [symmetric] using u qq pp by linarith
  show "16 \<le> u div 4096 mod 64" if "u div 262144 = 0"
    using that p unfolding div_262144 div_4096 q_def [symmetric] p_def [symmetric] by auto
  show "u div 4096 mod 64 < 16" if "u div 262144 = 4"
  proof -
    have "p div 64 = 4" using that by (simp add: div_262144 q_def p_def)
    then have "p mod 64 < 16" using p pp by linarith
    then show ?thesis by (simp add: div_4096 q_def p_def)
  qed
qed

lemma surrogate_pair_arith:
  fixes h l :: nat
  assumes "55296 \<le> h" "h \<le> 56319" "56320 \<le> l" "l \<le> 57343"
  shows "65536 \<le> 65536 + (h - 55296) * 1024 + (l - 56320)"
    and "65536 + (h - 55296) * 1024 + (l - 56320) < 1114112"
    and "55296 + (65536 + (h - 55296) * 1024 + (l - 56320) - 65536) div 1024 = h"
    and "56320 + (65536 + (h - 55296) * 1024 + (l - 56320) - 65536) mod 1024 = l"
proof -
  define a where "a = h - 55296"
  define b where "b = l - 56320"
  have a: "a < 1024" and b: "b < 1024" using assms by (auto simp: a_def b_def)
  have h: "h = 55296 + a" and l: "l = 56320 + b" using assms by (auto simp: a_def b_def)
  have cp: "65536 + a * 1024 + b - 65536 = a * 1024 + b" by simp
  show "65536 \<le> 65536 + (h - 55296) * 1024 + (l - 56320)" by simp
  show "65536 + (h - 55296) * 1024 + (l - 56320) < 1114112"
    unfolding a_def [symmetric] b_def [symmetric] using a b by linarith
  show "55296 + (65536 + (h - 55296) * 1024 + (l - 56320) - 65536) div 1024 = h"
    unfolding a_def [symmetric] b_def [symmetric] cp using b h by simp
  show "56320 + (65536 + (h - 55296) * 1024 + (l - 56320) - 65536) mod 1024 = l"
    unfolding a_def [symmetric] b_def [symmetric] cp using b l by simp
qed


lemma utf8_1_bytes: "u < 128 \<Longrightarrow> \<exists>b0. utf8_1 u = [b0] \<and> unat b0 = u"
  by (simp add: utf8_1_def unat_byte_of_nat)

lemma utf8_2_bytes:
  "u < 2048 \<Longrightarrow> \<exists>b0 b1. utf8_2 u = [b0, b1] \<and> unat b0 = 192 + u div 64 \<and> unat b1 = 128 + u mod 64"
  by (simp add: utf8_2_def unat_byte_of_nat del: of_nat_add)

lemma utf8_3_bytes:
  "u < 65536 \<Longrightarrow> \<exists>b0 b1 b2. utf8_3 u = [b0, b1, b2] \<and> unat b0 = 224 + u div 4096
     \<and> unat b1 = 128 + u div 64 mod 64 \<and> unat b2 = 128 + u mod 64"
  by (simp add: utf8_3_def unat_byte_of_nat del: of_nat_add)

lemma utf8_4_bytes:
  "u < 1114112 \<Longrightarrow> \<exists>b0 b1 b2 b3. utf8_4 u = [b0, b1, b2, b3] \<and> unat b0 = 240 + u div 262144
     \<and> unat b1 = 128 + u div 4096 mod 64 \<and> unat b2 = 128 + u div 64 mod 64
     \<and> unat b3 = 128 + u mod 64"
  by (simp add: utf8_4_def unat_byte_of_nat del: of_nat_add)

lemmas word_to_nat = word_le_nat_alt word_less_nat_alt word_unat_eq_iff

lemma decode_1:
  assumes "u < 128"
  shows "utf8_decode (utf8_1 u @ rest) = of_nat u # utf8_decode rest"
proof -
  from utf8_1_bytes [OF assms] obtain b0 where "utf8_1 u = [b0]" "unat b0 = u" by blast
  with assms show ?thesis
    by (simp add: word_less_nat_alt code_units_def)
qed

lemma mod_64_le: "(x :: nat) mod 64 \<le> 63"
  using mod_less_divisor [of 64 x] by linarith

lemma decode_2:
  assumes "128 \<le> u" "u < 2048"
  shows "utf8_decode (utf8_2 u @ rest) = of_nat u # utf8_decode rest"
proof -
  from utf8_2_bytes [OF assms(2)] obtain b0 b1 where
    bytes: "utf8_2 u = [b0, b1]" "unat b0 = 192 + u div 64" "unat b1 = 128 + u mod 64" by blast
  have d: "2 \<le> u div 64" "u div 64 \<le> 31" using assms by auto
  have lead: "\<not> b0 < 0x80" "0xC2 \<le> b0" "b0 \<le> 0xDF"
    using d by (simp_all add: word_to_nat bytes)
  have cont: "is_cont b1"
    using mod_64_le [of u] by (simp add: is_cont_def word_to_nat bytes)
  have cp: "cp2 b0 b1 = u"
    by (simp add: cp2_def bytes)
  show ?thesis
    using assms(2) by (simp add: bytes(1) lead cont cp code_units_def)
qed

lemma decode_3:
  assumes "2048 \<le> u" "u < 65536" "\<not> (55296 \<le> u \<and> u \<le> 57343)"
  shows "utf8_decode (utf8_3 u @ rest) = of_nat u # utf8_decode rest"
proof -
  from utf8_3_bytes [OF assms(2)] obtain b0 b1 b2 where
    bytes: "utf8_3 u = [b0, b1, b2]" "unat b0 = 224 + u div 4096"
      "unat b1 = 128 + u div 64 mod 64" "unat b2 = 128 + u mod 64" by blast
  note ar = utf8_arith_3 [OF assms(1,2)]
  have d: "u div 4096 \<le> 15" using ar(1) by linarith
  have lead: "\<not> b0 < 0x80" "\<not> (0xC2 \<le> b0 \<and> b0 \<le> 0xDF)" "0xE0 \<le> b0" "b0 \<le> 0xEF"
    using d by (simp_all add: word_to_nat bytes)
  have second: "second_ok b0 b1"
  proof (cases "u div 4096 = 0")
    case True
    from ar(3) [OF True] mod_64_le [of "u div 64"] show ?thesis
      by (simp add: second_ok_def word_to_nat bytes True)
  next
    case nz: False
    show ?thesis
    proof (cases "u div 4096 = 13")
      case True
      have "u < 55296" using assms(3) True by (auto simp: div_4096)
      from ar(4) [OF True this] have "u div 64 mod 64 \<le> 31" by linarith
      then show ?thesis
        by (simp add: second_ok_def word_to_nat bytes True)
    next
      case False
      with nz d mod_64_le [of "u div 64"] show ?thesis
        by (simp add: second_ok_def is_cont_def word_to_nat bytes)
    qed
  qed
  have cont: "is_cont b2"
    using mod_64_le [of u] by (simp add: is_cont_def word_to_nat bytes)
  have cp: "cp3 b0 b1 b2 = u"
    using ar(2) by (simp add: cp3_def bytes)
  show ?thesis
    using assms(2) by (simp add: bytes(1) lead second cont cp code_units_def)
qed

lemma decode_4:
  assumes "65536 \<le> u" "u < 1114112"
  shows "utf8_decode (utf8_4 u @ rest) = code_units u @ utf8_decode rest"
proof -
  from utf8_4_bytes [OF assms(2)] obtain b0 b1 b2 b3 where
    bytes: "utf8_4 u = [b0, b1, b2, b3]" "unat b0 = 240 + u div 262144"
      "unat b1 = 128 + u div 4096 mod 64" "unat b2 = 128 + u div 64 mod 64"
      "unat b3 = 128 + u mod 64" by blast
  note ar = utf8_arith_4 [OF assms]
  have d: "u div 262144 \<le> 4" using ar(1) by linarith
  have lead: "\<not> b0 < 0x80" "\<not> (0xC2 \<le> b0 \<and> b0 \<le> 0xDF)" "\<not> (0xE0 \<le> b0 \<and> b0 \<le> 0xEF)"
    "0xF0 \<le> b0" "b0 \<le> 0xF4"
    using d by (simp_all add: word_to_nat bytes)
  have second: "second_ok b0 b1"
  proof (cases "u div 262144 = 0")
    case True
    from ar(3) [OF True] mod_64_le [of "u div 4096"] show ?thesis
      by (simp add: second_ok_def word_to_nat bytes True)
  next
    case nz: False
    show ?thesis
    proof (cases "u div 262144 = 4")
      case True
      from ar(4) [OF True] have "u div 4096 mod 64 \<le> 15" by linarith
      then show ?thesis
        by (simp add: second_ok_def word_to_nat bytes True)
    next
      case False
      with nz d mod_64_le [of "u div 4096"] show ?thesis
        by (simp add: second_ok_def is_cont_def word_to_nat bytes)
    qed
  qed
  have cont: "is_cont b2" "is_cont b3"
    using mod_64_le [of u] mod_64_le [of "u div 64"]
    by (simp_all add: is_cont_def word_to_nat bytes)
  have cp: "cp4 b0 b1 b2 b3 = u"
    using ar(2) by (simp add: cp4_def bytes)
  show ?thesis
    by (simp add: bytes(1) lead second cont cp)
qed

lemma code_units_pair:
  assumes "is_high_surrogate h" "is_low_surrogate l"
  shows "code_units (pair_code_point h l) = [h, l]"
    and "65536 \<le> pair_code_point h l" and "pair_code_point h l < 1114112"
proof -
  have b: "55296 \<le> unat h" "unat h \<le> 56319" "56320 \<le> unat l" "unat l \<le> 57343"
    using assms by (simp_all add: is_high_surrogate_def is_low_surrogate_def word_le_nat_alt)
  note ar = surrogate_pair_arith [OF b]
  show "65536 \<le> pair_code_point h l" "pair_code_point h l < 1114112"
    using ar(1,2) by (simp_all add: pair_code_point_def)
  then have "\<not> pair_code_point h l < 65536" by simp
  then show "code_units (pair_code_point h l) = [h, l]"
    unfolding code_units_def pair_code_point_def
    by (simp only: ar(3,4) jschar_of_nat_unat if_False)
qed

lemma utf8_round_trip: "well_formed s \<Longrightarrow> utf8_decode (utf8_encode s) = s"
proof (induction s rule: well_formed.induct)
  case 1
  show ?case by simp
next
  case (2 c cs)
  show ?case
  proof (cases "is_high_surrogate c")
    case True
    with "2.prems" obtain d ds where cs: "cs = d # ds" and low: "is_low_surrogate d"
      and wf: "well_formed ds"
      by (cases cs) auto
    from True have big: "\<not> unat c < 128" "\<not> unat c < 2048"
      by (simp_all add: is_high_surrogate_def word_le_nat_alt)
    from "2.IH"(1) [OF True cs] low wf have ih: "utf8_decode (utf8_encode ds) = ds" by simp
    show ?thesis
      using True low big ih code_units_pair [OF True low]
      by (simp add: cs decode_4)
  next
    case False
    with "2.prems" have nlow: "\<not> is_low_surrogate c" and wf: "well_formed cs" by simp_all
    from "2.IH"(2) [OF False] nlow wf have ih: "utf8_decode (utf8_encode cs) = cs" by simp
    have ns: "\<not> (55296 \<le> unat c \<and> unat c \<le> 57343)"
      using False nlow by (auto simp: is_high_surrogate_def is_low_surrogate_def word_le_nat_alt)
    show ?thesis
      using False nlow ih ns unat_jschar_less [of c]
      by (simp add: decode_1 decode_2 decode_3 jschar_of_nat_unat)
  qed
qed


text \<open>What \<open>JSON.stringify\<close> writes for a string is well-formed and reads back as the string.\<close>

lemma well_formed_append: "well_formed a \<Longrightarrow> well_formed b \<Longrightarrow> well_formed (a @ b)"
  by (induction a rule: well_formed.induct) (auto split: list.splits)

lemma not_surrogate_small:
  "unat c < 55296 \<Longrightarrow> \<not> is_high_surrogate c \<and> \<not> is_low_surrogate c"
  by (simp add: is_high_surrogate_def is_low_surrogate_def word_le_nat_alt)

lemma well_formed_ascii: "\<forall>c \<in> set s. unat c < 55296 \<Longrightarrow> well_formed s"
  by (induction s) (simp_all add: not_surrogate_small)

lemma of_char_nat_less: "(of_char c :: nat) < 256"
  by (metis of_char_mod_256 mod_less_divisor zero_less_numeral)

lemma unat_of_char: "unat (of_char c :: jschar) < 256"
proof -
  have lt: "(of_char c :: nat) < 65536"
    using of_char_nat_less [of c] by linarith
  have "unat (of_nat (of_char c) :: jschar) = of_char c mod 65536"
    by (simp only: unat_of_nat) simp
  also have "\<dots> = of_char c"
    by (rule mod_less) (rule lt)
  finally have "unat (of_nat (of_char c) :: jschar) < 256"
    using of_char_nat_less [of c] by (simp only:)
  then show ?thesis
    by (simp only: of_nat_of_char)
qed

lemma well_formed_lit: "well_formed (lit s)"
proof (rule well_formed_ascii, rule ballI)
  fix c assume "c \<in> set (lit s)"
  then obtain x where "c = of_char x" by (auto simp: lit_def)
  with unat_of_char [of x] show "unat c < 55296" by simp
qed

lemma unat_hex_char: "d < 16 \<Longrightarrow> unat (hex_char d) = (if d < 10 then 48 + d else 87 + d)"
  unfolding hex_char_def by (simp add: unat_jschar_of_nat del: of_nat_add)

lemma hex_char_small: "d < 16 \<Longrightarrow> unat (hex_char d) < 55296"
  by (simp add: unat_hex_char)

lemma hex_digits:
  fixes u :: nat
  assumes "u < 65536"
  shows "u div 4096 < 16" and "u div 256 mod 16 < 16" and "u div 16 mod 16 < 16" and "u mod 16 < 16"
    and "u div 4096 * 4096 + u div 256 mod 16 * 256 + u div 16 mod 16 * 16 + u mod 16 = u"
proof -
  define q where "q = u div 16"
  define p where "p = q div 16"
  have u: "u = q * 16 + u mod 16" by (simp add: q_def)
  have qq: "q = p * 16 + q mod 16" by (simp add: p_def)
  have pp: "p = p div 16 * 16 + p mod 16" by simp
  have d256: "u div 256 = p" by (simp add: p_def q_def div_mult2_eq [symmetric])
  have d4096: "u div 4096 = p div 16" by (simp add: p_def q_def div_mult2_eq [symmetric])
  show "u div 4096 < 16" using assms by auto
  show "u div 256 mod 16 < 16" "u div 16 mod 16 < 16" "u mod 16 < 16" by simp_all
  show "u div 4096 * 4096 + u div 256 mod 16 * 256 + u div 16 mod 16 * 16 + u mod 16 = u"
    unfolding d256 d4096 q_def [symmetric] using u qq pp by linarith
qed

lemma well_formed_unicode_escape: "well_formed (unicode_escape c)"
proof -
  note d = hex_digits(1-4) [OF unat_jschar_less [of c]]
  show ?thesis
    unfolding unicode_escape_def
    by (rule well_formed_ascii) (simp add: hex_char_small [OF d(1)] hex_char_small [OF d(2)]
        hex_char_small [OF d(3)] hex_char_small [OF d(4)])
qed

lemma well_formed_quote_code_unit: "well_formed (quote_code_unit c)"
  by (simp add: quote_code_unit_def well_formed_unicode_escape not_surrogate_small)

lemma well_formed_quote_body: "well_formed (quote_body s)"
proof (induction s rule: quote_body.induct)
  case 1
  show ?case by simp
next
  case (2 c cs)
  show ?case
  proof (cases "is_high_surrogate c")
    case False
    with "2.IH"(3) show ?thesis
      by (simp add: well_formed_append well_formed_quote_code_unit)
  next
    case True
    show ?thesis
    proof (cases cs)
      case Nil
      with True show ?thesis by (simp add: well_formed_quote_code_unit)
    next
      case (Cons d ds)
      with True "2.IH"(1,2) show ?thesis
        by (simp add: well_formed_append well_formed_quote_code_unit)
    qed
  qed
qed

lemma hex_value_char: "d < 16 \<Longrightarrow> hex_value (hex_char d) = Some d"
  by (auto simp: hex_value_def word_le_nat_alt unat_hex_char)

lemma hex4_unicode_escape:
  "hex4 (hex_char (unat c div 4096)) (hex_char (unat c div 256 mod 16))
     (hex_char (unat c div 16 mod 16)) (hex_char (unat c mod 16)) = Some c"
proof -
  note d = hex_digits [OF unat_jschar_less [of c]]
  show ?thesis
    unfolding hex4_def
    by (simp only: hex_value_char [OF d(1)] hex_value_char [OF d(2)] hex_value_char [OF d(3)]
        hex_value_char [OF d(4)] d(5) jschar_of_nat_unat prod.case option.case)
qed

lemma parse_unicode_escape:
  "parse_string_body (unicode_escape c @ rest) = prepend c (parse_string_body rest)"
  by (simp add: unicode_escape_def hex4_unicode_escape)

lemma parse_quote_code_unit:
  "parse_string_body (quote_code_unit c @ rest) = prepend c (parse_string_body rest)"
  by (simp add: quote_code_unit_def parse_unicode_escape simple_escape_def)

lemma parse_surrogate:
  assumes "is_high_surrogate c \<or> is_low_surrogate c"
  shows "parse_string_body (c # rest) = prepend c (parse_string_body rest)"
proof -
  have "55296 \<le> unat c"
    using assms by (auto simp: is_high_surrogate_def is_low_surrogate_def word_le_nat_alt)
  then have "c \<noteq> 0x22" "c \<noteq> 0x5C" "\<not> c < 0x20"
    by (auto simp: word_to_nat)
  then show ?thesis by simp
qed

lemma parse_quote_body:
  "parse_string_body (quote_body s @ 0x22 # rest) = Some (s, rest)"
proof (induction s rule: quote_body.induct)
  case 1
  show ?case by simp
next
  case (2 c cs)
  show ?case
  proof (cases "is_high_surrogate c")
    case False
    with "2.IH"(3) show ?thesis
      by (simp add: parse_quote_code_unit prepend_def)
  next
    case True
    show ?thesis
    proof (cases cs)
      case Nil
      with True show ?thesis by (simp add: parse_quote_code_unit prepend_def)
    next
      case (Cons d ds)
      with True "2.IH"(1,2) show ?thesis
        by (simp add: parse_quote_code_unit parse_surrogate prepend_def del: parse_string_body.simps)
    qed
  qed
qed


text \<open>The metadata object: its text is cut into the expected tokens, which parse to it.\<close>

lemma json_lex_string:
  "json_lex (0x22 # quote_body s @ 0x22 # rest) = cons_token (TValue (JString s)) (json_lex rest)"
  by (simp add: json_ws_def parse_quote_body)

lemma json_lex_punctuation:
  "json_lex (0x7B # rest) = cons_token TLBrace (json_lex rest)"
  "json_lex (0x7D # rest) = cons_token TRBrace (json_lex rest)"
  "json_lex (0x5B # rest) = cons_token TLBracket (json_lex rest)"
  "json_lex (0x5D # rest) = cons_token TRBracket (json_lex rest)"
  "json_lex (0x2C # rest) = cons_token TComma (json_lex rest)"
  "json_lex (0x3A # rest) = cons_token TColon (json_lex rest)"
  by (simp_all add: json_ws_def)

lemma json_lex_Nil: "json_lex [] = Some []"
  by simp

lemma cons_token_Some: "cons_token t (Some ts) = Some (t # ts)"
  by (simp add: cons_token_def)

lemma json_lex_metadata:
  "json_lex (JSON_stringify (metadata env text description)) =
     Some [TLBrace, TValue (JString (lit ''name'')), TColon, TValue (JString (lit ''CRUXZ NFT'')),
           TComma, TValue (JString (lit ''description'')), TColon,
           TValue (JString (or_default description (lit ''CRUXZ NFT''))),
           TComma, TValue (JString (lit ''attributes'')), TColon, TLBracket,
           TLBrace, TValue (JString (lit ''trait_type'')), TColon, TValue (JString (lit ''Text'')),
           TComma, TValue (JString (lit ''value'')), TColon, TValue (JString text), TRBrace,
           TComma,
           TLBrace, TValue (JString (lit ''trait_type'')), TColon,
           TValue (JString (lit ''Created At'')),
           TComma, TValue (JString (lit ''value'')), TColon, TValue (JString (now_iso env)), TRBrace,
           TRBracket, TRBrace]"
  by (simp add: metadata_def quote_json_string_def json_lex_string json_lex_punctuation
      cons_token_Some del: json_lex.simps(2))

lemma not_an_index: "\<not> is_digit (hd k) \<Longrightarrow> k \<noteq> [] \<Longrightarrow> array_index k = None"
  by (cases k) (simp_all add: array_index_def)

lemma parse_metadata_tokens:
  "parse_tokens
     [TLBrace, TValue (JString (lit ''name'')), TColon, TValue (JString (lit ''CRUXZ NFT'')),
      TComma, TValue (JString (lit ''description'')), TColon, TValue (JString d),
      TComma, TValue (JString (lit ''attributes'')), TColon, TLBracket,
      TLBrace, TValue (JString (lit ''trait_type'')), TColon, TValue (JString (lit ''Text'')),
      TComma, TValue (JString (lit ''value'')), TColon, TValue (JString t), TRBrace,
      TComma,
      TLBrace, TValue (JString (lit ''trait_type'')), TColon, TValue (JString (lit ''Created At'')),
      TComma, TValue (JString (lit ''value'')), TColon, TValue (JString n), TRBrace,
      TRBracket, TRBrace] ([], WantValue)
   = Some ([], Done (JObject
       [(lit ''name'', JString (lit ''CRUXZ NFT'')),
        (lit ''description'', JString d),
        (lit ''attributes'',
           JArray
             [JObject [(lit ''trait_type'', JString (lit ''Text'')), (lit ''value'', JString t)],
              JObject [(lit ''trait_type'', JString (lit ''Created At'')),
                       (lit ''value'', JString n)]])]))"
proof -
  have idx: "array_index (lit ''name'') = None" "array_index (lit ''description'') = None"
    "array_index (lit ''attributes'') = None" "array_index (lit ''trait_type'') = None"
    "array_index (lit ''value'') = None"
    by (simp_all add: not_an_index is_digit_def lit_def)
  have keys: "lit ''description'' \<noteq> lit ''name''" "lit ''attributes'' \<noteq> lit ''name''"
    "lit ''attributes'' \<noteq> lit ''description''" "lit ''value'' \<noteq> lit ''trait_type''"
    by (simp_all add: lit_def)
  show ?thesis
    by (simp add: start_value_def push_value_def read_key_def define_property_def idx keys)
qed

lemma JSON_parse_metadata:
  "JSON_parse (JSON_stringify (metadata env text description)) = Inr (metadata env text description)"
  unfolding JSON_parse_def json_lex_metadata option.case parse_metadata_tokens
  by (simp add: metadata_def)

lemma well_formed_append_iff: "well_formed a \<Longrightarrow> well_formed (a @ b) = well_formed b"
proof (induction a rule: well_formed.induct)
  case 1
  show ?case by simp
next
  case (2 c cs)
  show ?case
  proof (cases "is_high_surrogate c")
    case True
    with "2.prems" obtain d ds where cs: "cs = d # ds" and low: "is_low_surrogate d"
      and wf: "well_formed ds"
      by (cases cs) auto
    from "2.IH"(1) [OF True cs] low wf have "well_formed (ds @ b) = well_formed b" by simp
    with True low show ?thesis by (simp add: cs)
  next
    case False
    with "2.prems" have "\<not> is_low_surrogate c" "well_formed cs" by simp_all
    with "2.IH"(2) [OF False] False show ?thesis by simp
  qed
qed

lemma well_formed_Cons_small: "unat c < 55296 \<Longrightarrow> well_formed (c # s) = well_formed s"
  by (simp add: not_surrogate_small)

lemma well_formed_quote_json_string: "well_formed (quote_json_string s @ rest) = well_formed rest"
proof -
  have "well_formed (quote_json_string s)"
    unfolding quote_json_string_def
    by (intro well_formed_append well_formed_quote_body) (simp_all add: not_surrogate_small)
  then show ?thesis by (rule well_formed_append_iff)
qed

lemma well_formed_metadata: "well_formed (JSON_stringify (metadata env text description))"
  by (simp add: metadata_def well_formed_quote_json_string well_formed_Cons_small
      del: well_formed.simps(2))

lemma replace_first_prefix: "p \<noteq> [] \<Longrightarrow> replace_first (p @ x) p rep = rep @ x"
  by (cases p) (simp_all add: startsWith_def)

text \<open>
  C5. For every metadata object that the metadata builder produces (every text, every
  description, every timestamp), removing the prefix \<open>data:application/json;base64,\<close>
  from its token URI, decoding the rest from base64 and reading the bytes as UTF-8 gives
  back the JSON text that was encoded, code unit for code unit, and parsing that text
  gives the metadata object: the decoding done by \<open>getWalletNFTs\<close> inverts the encoding
  done by \<open>mintTextNFT\<close>.
\<close>

theorem metadata_round_trip:
  "utf8_decode (base64_decode (replace_first (metadataUri (metadata env text description))
       (lit ''data:application/json;base64,'') []))
     = JSON_stringify (metadata env text description)
   \<and> decode_metadata (metadataUri (metadata env text description)) tokenId
     = Inr (metadata env text description)"
proof -
  have p: "lit ''data:application/json;base64,'' \<noteq> []"
    by (simp add: lit_def)
  have starts: "startsWith (metadataUri (metadata env text description))
      (lit ''data:application/json;base64,'')"
    by (simp add: metadataUri_def startsWith_def)
  have bytes: "utf8_decode (base64_decode (replace_first (metadataUri (metadata env text description))
       (lit ''data:application/json;base64,'') []))
     = JSON_stringify (metadata env text description)"
    unfolding metadataUri_def
    by (simp only: replace_first_prefix [OF p] append_Nil base64_round_trip
        utf8_round_trip [OF well_formed_metadata])
  have "decode_metadata (metadataUri (metadata env text description)) tokenId
      = JSON_parse (JSON_stringify (metadata env text description))"
    unfolding decode_metadata_def using starts by (simp only: bytes if_True)
  with bytes show ?thesis
    by (simp only: JSON_parse_metadata simp_thms)
qed


text \<open>A text with a quote, an accented letter and a character outside the basic plane.\<close>

theorem metadata_round_trip_witness:
  "decode_metadata
     (metadataUri (metadata example_env (lit ''say '' @ [0x22, 0xE9, 0xD83D, 0xDE00])
        (Some (lit ''A greeting'')))) 7
   = Inr (JObject
       [(lit ''name'', JString (lit ''CRUXZ NFT'')),
        (lit ''description'', JString (lit ''A greeting'')),
        (lit ''attributes'',
           JArray
             [JObject [(lit ''trait_type'', JString (lit ''Text'')),
                       (lit ''value'', JString (lit ''say '' @ [0x22, 0xE9, 0xD83D, 0xDE00]))],
              JObject [(lit ''trait_type'', JString (lit ''Created At'')),
                       (lit ''value'', JString (lit ''2024-05-01T12:00:00.000Z''))]])])"
  using metadata_round_trip [of example_env "lit ''say '' @ [0x22, 0xE9, 0xD83D, 0xDE00]"
      "Some (lit ''A greeting'')" 7]
  by (simp add: metadata_def or_default_def example_env_def lit_def)

end
